theory Spec2Isabelle
  imports Complex_Main "HOL-Library.Multiset" "HOL-Library.FSet"
begin

section \<open>Strings and numbers of the host language\<close>

text \<open>
  The program is TypeScript. Its strings are modelled as \<open>string\<close> (ASCII only) and its
  \<open>bigint\<close> as \<open>int\<close>. The numbers of token discovery are doubles, the type \<open>number\<close>
  below, read, printed, multiplied and divided with the rounding of IEEE 754. The quote of a
  \<open>Token\<close>, which the transfer builder only compares with other quotes, is the rational
  (\<open>rat\<close>) that a finite double denotes.
\<close>

definition toLowerCaseChar :: "char \<Rightarrow> char" where
  "toLowerCaseChar c =
     (case map_of (zip ''ABCDEFGHIJKLMNOPQRSTUVWXYZ'' ''abcdefghijklmnopqrstuvwxyz'') c of
        Some d \<Rightarrow> d
      | None \<Rightarrow> c)"

definition toLowerCase :: "string \<Rightarrow> string" where
  "toLowerCase s = map toLowerCaseChar s"

text \<open>\<open>s.padStart(n, c)\<close>: pads on the left up to length \<open>n\<close> and never truncates.\<close>

definition padStart :: "nat \<Rightarrow> char \<Rightarrow> string \<Rightarrow> string" where
  "padStart n c s = replicate (n - length s) c @ s"

definition isWhiteSpace :: "char \<Rightarrow> bool" where
  "isWhiteSpace c = (c \<in> set [CHR 0x09, CHR 0x0A, CHR 0x0B, CHR 0x0C, CHR 0x0D, CHR '' ''])"

definition trim :: "string \<Rightarrow> string" where
  "trim s = rev (dropWhile isWhiteSpace (rev (dropWhile isWhiteSpace s)))"

definition digitOf :: "char \<Rightarrow> int option" where
  "digitOf c = map_of (zip ''0123456789abcdef'' [0 .. 15]) (toLowerCaseChar c)"

definition isDigit :: "char \<Rightarrow> bool" where
  "isDigit c = (c \<in> set ''0123456789'')"

text \<open>Reads a digit string in the given radix; \<open>None\<close> when a character is not a digit.\<close>

fun parseDigits :: "int \<Rightarrow> string \<Rightarrow> int \<Rightarrow> int option" where
  "parseDigits r [] acc = Some acc"
| "parseDigits r (c # cs) acc =
     (case digitOf c of
        None \<Rightarrow> None
      | Some d \<Rightarrow> if d < r then parseDigits r cs (acc * r + d) else None)"

text \<open>
  \<open>BigInt(s)\<close> on a string: surrounding white space is dropped, the empty string is
  \<open>0n\<close>, a decimal literal may carry a sign, a literal with a \<open>0x\<close>, \<open>0o\<close> or \<open>0b\<close>
  prefix may not. Anything else raises \<open>SyntaxError\<close>, here \<open>None\<close>.
\<close>

definition BigInt :: "string \<Rightarrow> int option" where
  "BigInt s =
     (let t = trim s; p = toLowerCase (take 2 t); r = drop 2 t in
      if t = [] then Some 0
      else if p = ''0x'' then (if r = [] then None else parseDigits 16 r 0)
      else if p = ''0o'' then (if r = [] then None else parseDigits 8 r 0)
      else if p = ''0b'' then (if r = [] then None else parseDigits 2 r 0)
      else if hd t = CHR ''-'' then
        (if tl t = [] then None else map_option uminus (parseDigits 10 (tl t) 0))
      else if hd t = CHR ''+'' then
        (if tl t = [] then None else parseDigits 10 (tl t) 0)
      else parseDigits 10 t 0)"

text \<open>\<open>n.toString(16)\<close> of a \<open>bigint\<close>: lowercase digits, a minus sign when negative.\<close>

definition hexDigit :: "int \<Rightarrow> char" where
  "hexDigit d = ''0123456789abcdef'' ! nat d"

function hexDigits :: "int \<Rightarrow> string" where
  "hexDigits n =
     (if n < 16 then [hexDigit n]
      else hexDigits (n div 16) @ [hexDigit (n mod 16)])"
  by pat_completeness auto
termination
  by (relation "measure nat") auto

declare hexDigits.simps [simp del]

definition toString16 :: "int \<Rightarrow> string" where
  "toString16 n = (if n < 0 then CHR ''-'' # hexDigits (- n) else hexDigits n)"

text \<open>
  \<open>parseEther\<close> of the library \<open>viem\<close>, on the literals it is applied to here: plain
  decimals \<open>digits[.digits]\<close> with at most 18 fractional digits, scaled by \<open>10^18\<close>.
  Outside that domain (where the library raises or rounds) the model answers \<open>None\<close>.
\<close>

definition parseEther :: "string \<Rightarrow> int option" where
  "parseEther s =
     (let i = takeWhile isDigit s; r = dropWhile isDigit s; f = drop 1 r in
      if (r = [] \<or> hd r = CHR ''.'') \<and> list_all isDigit f \<and> length f \<le> 18 \<and> i @ f \<noteq> []
      then parseDigits 10 (i @ f @ replicate (18 - length f) CHR ''0'') 0
      else None)"

subsection \<open>Numbers\<close>

text \<open>
  A \<open>number\<close> is a double: \<open>NaN\<close>, one of the two infinities, or a finite double, held as
  the rational it denotes exactly. The two zeros are not told apart; the program never
  divides by a negative zero and compares and prints both alike.
\<close>

datatype number = NaN | Infinity | NegInfinity | Finite rat

text \<open>The number of binary digits of a positive integer.\<close>

function bitLength :: "int \<Rightarrow> nat" where
  "bitLength n = (if n \<le> 0 then 0 else Suc (bitLength (n div 2)))"
  by pat_completeness auto
termination
  by (relation "measure nat") auto

declare bitLength.simps [simp del]

definition pow2 :: "int \<Rightarrow> rat" where
  "pow2 e = (if 0 \<le> e then 2 ^ nat e else 1 / 2 ^ nat (- e))"

text \<open>The integer nearest to \<open>a / b\<close> for \<open>0 \<le> a\<close> and \<open>0 < b\<close>, the even one of two.\<close>

definition roundHalfEven :: "int \<Rightarrow> int \<Rightarrow> int" where
  "roundHalfEven a b =
     (let q = a div b; r = a mod b in
      if 2 * r < b then q else if b < 2 * r then q + 1 else if even q then q else q + 1)"

text \<open>
  The Number value for the fraction \<open>a / b\<close> (\<open>0 < b\<close>), as IEEE 754 binary64 rounds it:
  with \<open>e\<close> the binary exponent of the fraction, the result is the nearest multiple of
  \<open>2^(e - 52)\<close>, or of \<open>2^(-1074)\<close> in the subnormal range, ties going to the even multiple;
  a result of \<open>2^1024\<close> or more is infinite.
\<close>

definition numberValue :: "int \<Rightarrow> int \<Rightarrow> number" where
  "numberValue a b =
     (if a = 0 then Finite 0
      else
        (let m = \<bar>a\<bar>;
             e0 = int (bitLength m) - int (bitLength b);
             e = (if (if 0 \<le> e0 then b * 2 ^ nat e0 \<le> m else b \<le> m * 2 ^ nat (- e0))
                  then e0 else e0 - 1);
             p = max e (- 1022) - 52;
             n = (if 0 \<le> p then roundHalfEven m (b * 2 ^ nat p)
                  else roundHalfEven (m * 2 ^ nat (- p)) b);
             v = of_int n * pow2 p
         in if 2 ^ 1024 \<le> v then (if a < 0 then NegInfinity else Infinity)
            else Finite (if a < 0 then - v else v)))"


text \<open>\<open>x > y\<close> and \<open>x === 0\<close>; every comparison with \<open>NaN\<close> is false.\<close>

definition isGreater :: "number \<Rightarrow> number \<Rightarrow> bool" where
  "isGreater x y =
     (case x of
        NaN \<Rightarrow> False
      | NegInfinity \<Rightarrow> False
      | Infinity \<Rightarrow> y \<noteq> NaN \<and> y \<noteq> Infinity
      | Finite q \<Rightarrow>
          (case y of NaN \<Rightarrow> False | Infinity \<Rightarrow> False | NegInfinity \<Rightarrow> True
                   | Finite r \<Rightarrow> r < q))"

definition isZero :: "number \<Rightarrow> bool" where
  "isZero x = (x = Finite 0)"

definition negate :: "number \<Rightarrow> number" where
  "negate x =
     (case x of NaN \<Rightarrow> NaN | Infinity \<Rightarrow> NegInfinity | NegInfinity \<Rightarrow> Infinity
              | Finite q \<Rightarrow> Finite (- q))"





definition decimalValue :: "string \<Rightarrow> int" where
  "decimalValue ds = (case parseDigits 10 ds 0 of None \<Rightarrow> 0 | Some n \<Rightarrow> n)"

text \<open>The exponent part \<open>e[+-]digits\<close> at the head of a string, \<open>0\<close> when there is none.\<close>

definition exponentPart :: "string \<Rightarrow> int" where
  "exponentPart s =
     (if s \<noteq> [] \<and> (hd s = CHR ''e'' \<or> hd s = CHR ''E'') then
        (let r = tl s;
             neg = (r \<noteq> [] \<and> hd r = CHR ''-'');
             ds = takeWhile isDigit
                    (if r \<noteq> [] \<and> (hd r = CHR ''-'' \<or> hd r = CHR ''+'') then tl r else r)
         in if ds = [] then 0 else if neg then - decimalValue ds else decimalValue ds)
      else 0)"

text \<open>
  \<open>parseFloat(s)\<close>: leading white space is skipped and the longest prefix that is a decimal
  literal (sign, digits, fraction, exponent, or \<open>Infinity\<close>) is read; \<open>NaN\<close> when there is
  no such prefix. The literal \<open>d \<times> 10^e\<close> read is rounded to the nearest double, as the
  engines do for a literal of any length.
\<close>

definition parseFloat :: "string \<Rightarrow> number" where
  "parseFloat s =
     (let t = dropWhile isWhiteSpace s;
          neg = (t \<noteq> [] \<and> hd t = CHR ''-'');
          u = (if t \<noteq> [] \<and> (hd t = CHR ''-'' \<or> hd t = CHR ''+'') then tl t else t)
      in if take 8 u = ''Infinity'' then (if neg then NegInfinity else Infinity)
         else
           (let ip = takeWhile isDigit u;
                r1 = dropWhile isDigit u;
                hasDot = (r1 \<noteq> [] \<and> hd r1 = CHR ''.'');
                fp = (if hasDot then takeWhile isDigit (tl r1) else []);
                r2 = (if hasDot then dropWhile isDigit (tl r1) else r1);
                d = decimalValue (ip @ fp);
                e = exponentPart r2 - int (length fp);
                x = (if 0 \<le> e then numberValue (d * 10 ^ nat e) 1
                     else numberValue d (10 ^ nat (- e)))
            in if ip = [] \<and> fp = [] then NaN else if neg then negate x else x))"







section \<open>The transfer builder\<close>

subsection \<open>Data\<close>

text \<open>The \<open>Token\<close> interface; \<open>logo_urls.token_logo_url\<close> is flattened into one field.\<close>

record Token =
  contract_address :: string
  contract_name :: string
  contract_ticker_symbol :: string
  contract_decimals :: int
  token_logo_url :: string
  supports_erc :: "string list"
  native_token :: bool
  is_spam :: bool
  balance :: string
  quote :: rat
  usd_price :: "rat option"

datatype call_type = native_transfer | erc20_transfer

text \<open>
  \<open>TransferCall\<close>, without its \<open>description\<close>: a display string produced by
  locale-dependent number formatting, which no result below depends on. The one thing the
  formatting can do to the build, raise \<open>RangeError\<close>, is kept (see \<open>precheckCalls\<close>).
\<close>

record TransferCall =
  to :: string
  "value" :: int
  data :: "string option"
  type :: call_type

record TransferCallWithValue = TransferCall +
  tokenQuote :: "rat option"
  token :: "Token option"

record PrecheckResult =
  total :: nat
  valid :: nat
  failed :: nat

record BuildResult =
  calls :: "TransferCall list"
  precheckResult :: PrecheckResult

datatype error =
    InvalidTargetAddressFormat
  | WalletNotConnected
  | SyntaxError
  | RangeError
  | InvalidDecimalNumber
  | PublicClientNotAvailable
  | NoValidTransfers

text \<open>Fixed reserve amounts for gas, in native token units, per chain id.\<close>

definition NATIVE_TOKEN_RESERVE :: "int \<Rightarrow> string option" where
  "NATIVE_TOKEN_RESERVE =
     [1 \<mapsto> ''0.002248'',
      137 \<mapsto> ''0.04496'',
      56 \<mapsto> ''0.0001724'',
      42161 \<mapsto> ''0.0001124'',
      8453 \<mapsto> ''0.0001124'',
      10 \<mapsto> ''0.0001124'']"

subsection \<open>Step 1: the candidates of the pre-check\<close>

text \<open>\<open>token.balance || "0"\<close>: the empty string is falsy.\<close>

definition balanceOrZero :: "Token \<Rightarrow> string" where
  "balanceOrZero t = (if balance t = [] then ''0'' else balance t)"

text \<open>The callback of \<open>tokens.filter\<close>; \<open>BigInt\<close> may raise.\<close>

definition isCandidate :: "Token \<Rightarrow> error + bool" where
  "isCandidate t =
     (case BigInt (balanceOrZero t) of
        None \<Rightarrow> Inl SyntaxError
      | Some b \<Rightarrow> Inr (b > 0 \<and> \<not> native_token t))"

text \<open>\<open>Array.prototype.filter\<close> with a callback that may raise: the first exception ends it.\<close>

fun filterE :: "('a \<Rightarrow> error + bool) \<Rightarrow> 'a list \<Rightarrow> error + 'a list" where
  "filterE p [] = Inr []"
| "filterE p (x # xs) =
     (case p x of
        Inl e \<Rightarrow> Inl e
      | Inr b \<Rightarrow>
          (case filterE p xs of
             Inl e \<Rightarrow> Inl e
           | Inr ys \<Rightarrow> Inr (if b then x # ys else ys)))"

text \<open>
  \<open>xs.sort((a, b) => key(b) - key(a))\<close>: descending by key; the sort of the language is
  stable, as \<open>sort_key\<close> is.
\<close>

definition sortDescending :: "('a \<Rightarrow> rat) \<Rightarrow> 'a list \<Rightarrow> 'a list" where
  "sortDescending key xs = sort_key (\<lambda>x. - key x) xs"

definition allERC20Tokens :: "Token list \<Rightarrow> error + Token list" where
  "allERC20Tokens tokens =
     (case filterE isCandidate tokens of
        Inl e \<Rightarrow> Inl e
      | Inr ts \<Rightarrow> Inr (take 20 (sortDescending quote ts)))"

subsection \<open>Step 2: encoding the transfer calls\<close>

text \<open>\<open>transfer(address to, uint256 amount)\<close>, function signature \<open>0xa9059cbb\<close>.\<close>

definition encodeTransfer :: "string \<Rightarrow> int \<Rightarrow> string" where
  "encodeTransfer targetAddress amount =
     (let recipientAddress = padStart 64 CHR ''0'' (drop 2 targetAddress);
          amountHex = padStart 64 CHR ''0'' (toString16 amount)
      in ''0xa9059cbb'' @ recipientAddress @ amountHex)"

text \<open>
  The loop over the candidates; \<open>erc20Call\<close> is the call it pushes for a token of balance
  \<open>b\<close>. Formatting the amount for the description passes
  \<open>maximumFractionDigits: token.contract_decimals\<close>, which raises \<open>RangeError\<close> outside
  \<open>0..100\<close>.
\<close>

definition erc20Call :: "string \<Rightarrow> Token \<Rightarrow> int \<Rightarrow> TransferCallWithValue" where
  "erc20Call targetAddress t b =
     \<lparr>to = contract_address t, value = 0, data = Some (encodeTransfer targetAddress b),
      type = erc20_transfer, tokenQuote = Some (quote t), token = Some t\<rparr>"

fun precheckCalls :: "string \<Rightarrow> Token list \<Rightarrow> error + TransferCallWithValue list" where
  "precheckCalls targetAddress [] = Inr []"
| "precheckCalls targetAddress (t # ts) =
     (case BigInt (balanceOrZero t) of
        None \<Rightarrow> Inl SyntaxError
      | Some b \<Rightarrow>
          if b = 0 then precheckCalls targetAddress ts
          else if contract_decimals t < 0 \<or> 100 < contract_decimals t then Inl RangeError
          else
            (case precheckCalls targetAddress ts of
               Inl e \<Rightarrow> Inl e
             | Inr cs \<Rightarrow> Inr (erc20Call targetAddress t b # cs)))"

subsection \<open>Step 3: the pre-check\<close>

text \<open>
  \<open>publicClient.call({to, data, value, account})\<close> is the chain's read-only execution:
  a parameter that answers whether the call succeeds (\<open>True\<close>) or reverts.
\<close>

type_synonym eth_call = "string \<Rightarrow> string option \<Rightarrow> int \<Rightarrow> string \<Rightarrow> bool"

text \<open>
  The loop \<open>for (let i = 0; i < precheckCalls.length; i++)\<close> with its three variables
  \<open>precheckValidCalls\<close>, \<open>validCount\<close> and \<open>failedCount\<close>.
\<close>

fun precheckLoop ::
  "eth_call \<Rightarrow> string \<Rightarrow> TransferCallWithValue list \<Rightarrow>
   TransferCallWithValue list \<times> nat \<times> nat \<Rightarrow> TransferCallWithValue list \<times> nat \<times> nat" where
  "precheckLoop call account [] st = st"
| "precheckLoop call account (c # cs) (precheckValidCalls, validCount, failedCount) =
     (if call (to c) (data c) (value c) account
      then precheckLoop call account cs (precheckValidCalls @ [c], validCount + 1, failedCount)
      else precheckLoop call account cs (precheckValidCalls, validCount, failedCount + 1))"

subsection \<open>Step 4: the native transfer\<close>

text \<open>\<open>balanceData?.value || BigInt(0)\<close>.\<close>

definition nativeBalance :: "int option \<Rightarrow> int" where
  "nativeBalance balanceData = (case balanceData of None \<Rightarrow> 0 | Some v \<Rightarrow> v)"

text \<open>\<open>nativeToken?.quote || 0\<close> for \<open>nativeToken = tokens.find(t => t.native_token)\<close>.\<close>

definition nativeQuote :: "Token list \<Rightarrow> rat" where
  "nativeQuote tokens = (case find native_token tokens of None \<Rightarrow> 0 | Some t \<Rightarrow> quote t)"

definition nativeTransferCall ::
  "Token list \<Rightarrow> string \<Rightarrow> int \<Rightarrow> int option \<Rightarrow> error + TransferCallWithValue option" where
  "nativeTransferCall tokens targetAddress chainId balanceData =
     (case NATIVE_TOKEN_RESERVE chainId of
        None \<Rightarrow> Inr None
      | Some reserveAmountStr \<Rightarrow>
          if reserveAmountStr = [] then Inr None
          else
            (case parseEther reserveAmountStr of
               None \<Rightarrow> Inl InvalidDecimalNumber
             | Some reserveAmountWei \<Rightarrow>
                 if nativeBalance balanceData > reserveAmountWei then
                   (let transferAmount = nativeBalance balanceData - reserveAmountWei
                    in Inr (Some \<lparr>to = targetAddress, value = transferAmount, data = None,
                                  type = native_transfer,
                                  tokenQuote = Some (nativeQuote tokens),
                                  token = find native_token tokens\<rparr>))
                 else Inr None))"

subsection \<open>Steps 5 and 6: merge, sort, cap\<close>

text \<open>\<open>call.tokenQuote || 0\<close>.\<close>

definition tokenQuoteOrZero :: "TransferCallWithValue \<Rightarrow> rat" where
  "tokenQuoteOrZero c = (case tokenQuote c of None \<Rightarrow> 0 | Some q \<Rightarrow> q)"

definition maxTransfers :: nat where
  "maxTransfers = 10"

definition allValidCalls ::
  "TransferCallWithValue list \<Rightarrow> TransferCallWithValue option \<Rightarrow> TransferCallWithValue list" where
  "allValidCalls precheckValidCalls nativeCall =
     sortDescending tokenQuoteOrZero
       (precheckValidCalls @ (case nativeCall of None \<Rightarrow> [] | Some c \<Rightarrow> [c]))"

definition finalCalls :: "TransferCallWithValue list \<Rightarrow> TransferCall list" where
  "finalCalls cs = map TransferCall.truncate (take maxTransfers cs)"

subsection \<open>The builder\<close>

text \<open>
  \<open>isAddress\<close> belongs to the library \<open>viem\<close> and is a parameter of the builder. The shape
  of every address it accepts is \<open>0x\<close> and 40 hexadecimal digits, \<open>addressRegex\<close>; for an
  address in mixed case the library checks the checksum as well.
\<close>

definition addressRegex :: "string \<Rightarrow> bool" where
  "addressRegex s =
     (length s = 42 \<and> take 2 s = ''0x'' \<and> list_all (\<lambda>c. digitOf c \<noteq> None) (drop 2 s))"

text \<open>
  \<open>buildTransferCalls(tokens, targetAddress, chainId)\<close>. What the hook reads from its
  environment is passed in: \<open>isAddress\<close> (the library's address check),
  \<open>publicClient\<close> (\<open>None\<close> when no client is available for the chain), \<open>address\<close> (the
  connected account, if any) and \<open>balanceData\<close> (the \<open>value\<close> of the account's native
  balance, if loaded).
\<close>

definition buildTransferCalls ::
  "(string \<Rightarrow> bool) \<Rightarrow> eth_call option \<Rightarrow> string option \<Rightarrow> int option \<Rightarrow>
   Token list \<Rightarrow> string \<Rightarrow> int \<Rightarrow> error + BuildResult" where
  "buildTransferCalls isAddress publicClient address balanceData tokens targetAddress chainId =
     (if \<not> isAddress targetAddress then Inl InvalidTargetAddressFormat
      else (case address of
        None \<Rightarrow> Inl WalletNotConnected
      | Some account \<Rightarrow>
          if account = [] then Inl WalletNotConnected
          else (case allERC20Tokens tokens of
            Inl e \<Rightarrow> Inl e
          | Inr candidates \<Rightarrow>
              (case precheckCalls targetAddress candidates of
                 Inl e \<Rightarrow> Inl e
               | Inr pcs \<Rightarrow>
                   (case publicClient of
                      None \<Rightarrow> Inl PublicClientNotAvailable
                    | Some call \<Rightarrow>
                        (case precheckLoop call account pcs ([], 0, 0) of
                           (precheckValidCalls, validCount, failedCount) \<Rightarrow>
                             (case nativeTransferCall tokens targetAddress chainId balanceData of
                                Inl e \<Rightarrow> Inl e
                              | Inr nativeCall \<Rightarrow>
                                  (let final = finalCalls (allValidCalls precheckValidCalls nativeCall) in
                                   if final = [] then Inl NoValidTransfers
                                   else Inr \<lparr>calls = final,
                                            precheckResult =
                                              \<lparr>total = length pcs, valid = validCount,
                                               failed = failedCount\<rparr>\<rparr>))))))))"

text \<open>Whether the read-only execution of a call from \<open>account\<close> succeeds.\<close>

definition succeeds :: "eth_call \<Rightarrow> string \<Rightarrow> TransferCallWithValue \<Rightarrow> bool" where
  "succeeds call account c = call (to c) (data c) (value c) account"

text \<open>
  A token counts for the pre-check when its balance reads as a positive integer and it is
  not the native asset.
\<close>

definition positiveBalance :: "Token \<Rightarrow> bool" where
  "positiveBalance t = (case BigInt (balanceOrZero t) of None \<Rightarrow> False | Some b \<Rightarrow> 0 < b)"

text \<open>
  The call data as the specification words it: the selector, the destination as 40
  lowercase hexadecimal characters padded with 24 zeros, the amount as 64 hexadecimal
  characters padded with zeros.
\<close>

definition transferData_spec :: "string \<Rightarrow> int \<Rightarrow> string" where
  "transferData_spec targetAddress amount =
     ''0xa9059cbb'' @ replicate 24 CHR ''0'' @ toLowerCase (drop 2 targetAddress) @
     replicate (64 - length (toString16 amount)) CHR ''0'' @ toString16 amount"

subsection \<open>Example data\<close>

definition exampleToken :: "string \<Rightarrow> string \<Rightarrow> rat \<Rightarrow> Token" where
  "exampleToken a b q =
     \<lparr>contract_address = a, contract_name = ''Token'', contract_ticker_symbol = ''TKN'',
      contract_decimals = 18, token_logo_url = ''/placeholder.svg'', supports_erc = [''erc20''],
      native_token = False, is_spam = False, balance = b, quote = q, usd_price = None\<rparr>"

definition exampleSender :: string where
  "exampleSender = ''0x1111111111111111111111111111111111111111''"

definition exampleRecipient :: string where
  "exampleRecipient = ''0x2222222222222222222222222222222222222222''"

text \<open>A chain on which every transfer succeeds except those of the token at \<open>0xbad...\<close>.\<close>

definition exampleChain :: eth_call where
  "exampleChain t d v a = (t \<noteq> ''0xbad0000000000000000000000000000000000bad'')"

definition exampleTokens :: "Token list" where
  "exampleTokens =
     [exampleToken ''0xaaaaaaaaaaaaaaaaaaaaaaaaaaaaaaaaaaaaaaaa'' ''1000'' 12,
      exampleToken ''0xbad0000000000000000000000000000000000bad'' ''500'' 30,
      exampleToken ''0xcccccccccccccccccccccccccccccccccccccccc'' ''0'' 7,
      exampleToken ''0xdddddddddddddddddddddddddddddddddddddddd'' ''7'' 50]"

definition exampleResult :: BuildResult where
  "exampleResult =
     \<lparr>calls =
        [\<lparr>to = ''0xdddddddddddddddddddddddddddddddddddddddd'', value = 0,
          data = Some ''0xa9059cbb00000000000000000000000022222222222222222222222222222222222222220000000000000000000000000000000000000000000000000000000000000007'',
          type = erc20_transfer\<rparr>,
         \<lparr>to = ''0xaaaaaaaaaaaaaaaaaaaaaaaaaaaaaaaaaaaaaaaa'', value = 0,
          data = Some ''0xa9059cbb000000000000000000000000222222222222222222222222222222222222222200000000000000000000000000000000000000000000000000000000000003e8'',
          type = erc20_transfer\<rparr>,
         \<lparr>to = ''0x2222222222222222222222222222222222222222'', value = 752000000000000,
          data = None, type = native_transfer\<rparr>],
      precheckResult = \<lparr>total = 3, valid = 2, failed = 1\<rparr>\<rparr>"

text \<open>Twenty-five tokens of the same contract and balance, with values 1 to 25.\<close>

definition manyTokens :: "Token list" where
  "manyTokens =
     map (\<lambda>q. exampleToken ''0xaaaaaaaaaaaaaaaaaaaaaaaaaaaaaaaaaaaaaaaa'' ''5'' (of_int q)) [1 .. 25]"

definition manyResult :: BuildResult where
  "manyResult =
     \<lparr>calls =
        replicate 10
          \<lparr>to = ''0xaaaaaaaaaaaaaaaaaaaaaaaaaaaaaaaaaaaaaaaa'', value = 0,
           data = Some (encodeTransfer exampleRecipient 5), type = erc20_transfer\<rparr>,
      precheckResult = \<lparr>total = 20, valid = 20, failed = 0\<rparr>\<rparr>"

text \<open>
  The native token, valued above each of them, and the batch of a build on the twenty-five
  tokens and the native token: the native transfer and the nine token transfers of highest
  value.
\<close>

definition exampleNativeToken :: Token where
  "exampleNativeToken =
     (exampleToken ''0x0000000000000000000000000000000000000000'' ''3000000000000000'' 100)
       \<lparr>Token.native_token := True\<rparr>"

definition rankedResult :: BuildResult where
  "rankedResult =
     \<lparr>calls =
        \<lparr>to = ''0x2222222222222222222222222222222222222222'', value = 752000000000000,
         data = None, type = native_transfer\<rparr> #
        replicate 9
          \<lparr>to = ''0xaaaaaaaaaaaaaaaaaaaaaaaaaaaaaaaaaaaaaaaa'', value = 0,
           data = Some (encodeTransfer exampleRecipient 5), type = erc20_transfer\<rparr>,
      precheckResult = \<lparr>total = 20, valid = 20, failed = 0\<rparr>\<rparr>"

text \<open>A destination in checksum (mixed-case) notation, an example address of EIP-55.\<close>

definition checksumRecipient :: string where
  "checksumRecipient = ''0x5aAeb6053F3E94C9b9A09f33669435E7Ef1BeAed''"

section \<open>Configuration\<close>

text \<open>
  \<open>APP_CONFIG\<close>: the cache lifetime in milliseconds and the minimum value in USD, the
  double of the literal \<open>0.01\<close>.
\<close>

definition CACHE_TTL :: int where
  "CACHE_TTL = 2 * 60 * 1000"

definition MIN_TOKEN_VALUE_USD :: number where
  "MIN_TOKEN_VALUE_USD = numberValue 1 100"

text \<open>
  \<open>getMoralisChainName\<close>, a \<open>switch\<close> over \<open>SUPPORTED_CHAINS\<close> with a default. The table
  \<open>SUPPORTED_CHAINS\<close> declares six chains; the seventh case label, \<open>SUPPORTED_CHAINS.MONAD\<close>,
  has no declaration in the table, so its value is the parameter \<open>MONAD\<close> (\<open>None\<close> when
  undefined, a label that matches no chain id).
\<close>

definition ETHEREUM :: int where "ETHEREUM = 1"
definition POLYGON :: int where "POLYGON = 137"
definition BSC :: int where "BSC = 56"
definition ARBITRUM :: int where "ARBITRUM = 42161"
definition BASE :: int where "BASE = 8453"
definition OPTIMISM :: int where "OPTIMISM = 10"

definition getMoralisChainName :: "int option \<Rightarrow> int \<Rightarrow> string" where
  "getMoralisChainName MONAD chainId =
     (if chainId = ETHEREUM then ''eth''
      else if chainId = POLYGON then ''polygon''
      else if chainId = BSC then ''bsc''
      else if chainId = ARBITRUM then ''arbitrum''
      else if chainId = BASE then ''base''
      else if chainId = OPTIMISM then ''optimism''
      else if Some chainId = MONAD then ''monad''
      else ''base'')"

section \<open>The verified-token registry\<close>

datatype ApiStatus = Untested | Working | Failed

text \<open>The in-memory cache and its global version; \<open>Set<string>\<close> is a finite set.\<close>

record CacheEntry =
  verifiedTokens :: "string fset"
  timestamp :: int
  apiStatus :: ApiStatus
  version :: int

record VerifiedTokensCache =
  cache :: "int \<rightharpoonup> CacheEntry"
  cacheVersion :: int

definition invalidateVerifiedTokensCache :: "VerifiedTokensCache \<Rightarrow> VerifiedTokensCache" where
  "invalidateVerifiedTokensCache g = g\<lparr>cacheVersion := cacheVersion g + 1\<rparr>"

record VerifiedToken =
  address :: string
  symbol :: string
  decimals :: int
  listed :: bool

text \<open>
  What the request \<open>/api/tokens/verified\<close> comes back with: \<open>fetch\<close> raising, a response
  that is not \<open>ok\<close> (each with the message of the error raised), or a JSON body, of which
  only \<open>data.tokens\<close> is read: the array, or, when it is not an array, its \<open>typeof\<close>.
\<close>

datatype response = Threw string | NotOk string | Tokens "VerifiedToken list" | NoTokens string

text \<open>The state of the hook \<open>useVerifiedTokens\<close>, with its initial values.\<close>

record VerifiedTokensState =
  verifiedTokens :: "string fset"
  loading :: bool
  error :: "string option"
  apiStatus :: ApiStatus
  isReady :: bool

definition initialState :: VerifiedTokensState where
  "initialState =
     \<lparr>verifiedTokens = {||}, loading = True, error = None, apiStatus = Untested, isReady = False\<rparr>"

text \<open>
  The cache check: \<open>cached && Date.now() - cached.timestamp < CACHE_TTL &&
  cached.version === cacheVersion\<close>.
\<close>

definition cached :: "VerifiedTokensCache \<Rightarrow> int \<Rightarrow> int \<Rightarrow> CacheEntry option" where
  "cached g chainId now =
     (case cache g chainId of
        None \<Rightarrow> None
      | Some c \<Rightarrow>
          if now - CacheEntry.timestamp c < CACHE_TTL \<and> CacheEntry.version c = cacheVersion g
          then Some c else None)"

text \<open>The \<open>catch\<close> block, entered with the message of the error.\<close>

definition fetchFailed ::
  "int \<Rightarrow> int \<Rightarrow> string \<Rightarrow> VerifiedTokensCache \<times> VerifiedTokensState \<Rightarrow>
   VerifiedTokensCache \<times> VerifiedTokensState" where
  "fetchFailed chainId now message gh =
     (case gh of (g, h) \<Rightarrow>
        (let h1 = h\<lparr>error := Some message, apiStatus := Failed\<rparr>;
             previousCache = cache g chainId;
             h2 = (case previousCache of
                     None \<Rightarrow> h1\<lparr>verifiedTokens := {||}, isReady := True\<rparr>
                   | Some p \<Rightarrow>
                       if fcard (CacheEntry.verifiedTokens p) > 0
                       then h1\<lparr>verifiedTokens := CacheEntry.verifiedTokens p, isReady := True\<rparr>
                       else h1\<lparr>verifiedTokens := {||}, isReady := True\<rparr>);
             g2 = g\<lparr>cache := (cache g)(chainId \<mapsto>
                    \<lparr>CacheEntry.verifiedTokens =
                       (case previousCache of None \<Rightarrow> {||} | Some p \<Rightarrow> CacheEntry.verifiedTokens p),
                     timestamp = now, CacheEntry.apiStatus = Failed,
                     version = cacheVersion g\<rparr>)\<rparr>
         in (g2, h2\<lparr>loading := False\<rparr>)))"

text \<open>
  \<open>fetchVerifiedTokens\<close> for \<open>chainId\<close>. \<open>now\<close> is the clock at the cache check, \<open>now'\<close> the
  clock when the result is stored; \<open>r\<close> is what the request comes back with, if it is made.
\<close>

definition fetchVerifiedTokens ::
  "int \<Rightarrow> int \<Rightarrow> int \<Rightarrow> response \<Rightarrow> VerifiedTokensCache \<times> VerifiedTokensState \<Rightarrow>
   VerifiedTokensCache \<times> VerifiedTokensState" where
  "fetchVerifiedTokens chainId now now' r gh =
     (case gh of (g, h0) \<Rightarrow>
        (let h = h0\<lparr>loading := True, error := None\<rparr> in
         case cached g chainId now of
           Some c \<Rightarrow>
             (g, h\<lparr>verifiedTokens := CacheEntry.verifiedTokens c,
                   apiStatus := CacheEntry.apiStatus c, loading := False, isReady := True\<rparr>)
         | None \<Rightarrow>
             (case r of
                Threw message \<Rightarrow> fetchFailed chainId now' message (g, h)
              | NotOk message \<Rightarrow> fetchFailed chainId now' message (g, h)
              | NoTokens typeof \<Rightarrow>
                  fetchFailed chainId now'
                    (''Invalid response format - expected tokens array, got: '' @ typeof) (g, h)
              | Tokens tokens \<Rightarrow>
                  (let verifiedAddresses =
                         fset_of_list
                           (map (\<lambda>t. toLowerCase (address t))
                              (filter (\<lambda>t. listed t \<and> address t \<noteq> []) tokens))
                   in (g\<lparr>cache := (cache g)(chainId \<mapsto>
                            \<lparr>CacheEntry.verifiedTokens = verifiedAddresses, timestamp = now',
                             CacheEntry.apiStatus = Working, version = cacheVersion g\<rparr>)\<rparr>,
                       h\<lparr>verifiedTokens := verifiedAddresses, apiStatus := Working,
                         isReady := True, loading := False\<rparr>)))))"

definition isTokenVerified :: "VerifiedTokensState \<Rightarrow> string \<Rightarrow> bool" where
  "isTokenVerified h tokenAddress =
     (if \<not> isReady h then False
      else if fcard (verifiedTokens h) = 0 \<and> apiStatus h = Failed then True
      else if apiStatus h = Failed \<and> fcard (verifiedTokens h) > 0
        then toLowerCase tokenAddress |\<in>| verifiedTokens h
      else if fcard (verifiedTokens h) = 0 \<and> apiStatus h = Working then True
      else toLowerCase tokenAddress |\<in>| verifiedTokens h)"

text \<open>
  The request has failed: \<open>fetch\<close> raised, the response was not \<open>ok\<close>, or the body had no
  \<open>tokens\<close> array. The set a failed request falls back on is the one stored for the chain,
  of any age or version; it is empty when nothing is stored.
\<close>

definition requestFailed :: "response \<Rightarrow> bool" where
  "requestFailed r = (case r of Tokens tokens \<Rightarrow> False | _ \<Rightarrow> True)"

definition previousSet :: "VerifiedTokensCache \<Rightarrow> int \<Rightarrow> string fset" where
  "previousSet g chainId =
     (case cache g chainId of None \<Rightarrow> {||} | Some p \<Rightarrow> CacheEntry.verifiedTokens p)"

text \<open>The module's state when it is loaded: nothing cached, version 1.\<close>

definition emptyCache :: VerifiedTokensCache where
  "emptyCache = \<lparr>VerifiedTokensCache.cache = Map.empty, cacheVersion = 1\<rparr>"

text \<open>A body that lists one token (in mixed case) and leaves out one that is not listed.\<close>

definition exampleBody :: response where
  "exampleBody =
     Tokens [\<lparr>address = ''0xAAAAaaaaAAAAaaaaAAAAaaaaAAAAaaaaAAAAaaaa'', symbol = ''TKN'',
               decimals = 18, listed = True\<rparr>,
             \<lparr>address = ''0xbad0000000000000000000000000000000000bad'', symbol = ''BAD'',
               decimals = 18, listed = False\<rparr>]"

text \<open>The registry after a first, successful request on chain 1.\<close>

definition exampleFetched :: "VerifiedTokensCache \<times> VerifiedTokensState" where
  "exampleFetched = fetchVerifiedTokens 1 1000 1005 exampleBody (emptyCache, initialState)"

section \<open>The token-balance cache\<close>

text \<open>The versioned in-memory cache of \<open>useTokenBalances\<close>, keyed by \<open>`${address}-${chainId}`\<close>.\<close>

record TokenCacheEntry =
  data :: "Token list"
  timestamp :: int
  version :: int

record TokenBalanceCache =
  cache :: "string \<rightharpoonup> TokenCacheEntry"
  tokenCacheVersion :: int

definition invalidateTokenBalanceCache :: "TokenBalanceCache \<Rightarrow> TokenBalanceCache" where
  "invalidateTokenBalanceCache g = g\<lparr>tokenCacheVersion := tokenCacheVersion g + 1\<rparr>"

text \<open>
  The cache check at the head of \<open>fetchTokens\<close>, which sets \<open>cachedTokens\<close> and
  \<open>useCachedBalance\<close>.
\<close>

definition cachedTokens :: "TokenBalanceCache \<Rightarrow> string \<Rightarrow> int \<Rightarrow> Token list \<times> bool" where
  "cachedTokens g cacheKey now =
     (case TokenBalanceCache.cache g cacheKey of
        None \<Rightarrow> ([], False)
      | Some c \<Rightarrow>
          if now - TokenCacheEntry.timestamp c < CACHE_TTL \<and>
             TokenCacheEntry.version c = tokenCacheVersion g
          then (TokenCacheEntry.data c, True) else ([], False))"

text \<open>\<open>cache.set(cacheKey, {data: filteredTokens, timestamp: Date.now(), version})\<close>.\<close>

definition cacheSet :: "TokenBalanceCache \<Rightarrow> string \<Rightarrow> Token list \<Rightarrow> int \<Rightarrow> TokenBalanceCache" where
  "cacheSet g cacheKey filteredTokens now =
     g\<lparr>TokenBalanceCache.cache := (TokenBalanceCache.cache g)(cacheKey \<mapsto>
          \<lparr>data = filteredTokens, timestamp = now, version = tokenCacheVersion g\<rparr>)\<rparr>"

text \<open>The module's state when it is loaded.\<close>

definition emptyTokenCache :: TokenBalanceCache where
  "emptyTokenCache = \<lparr>TokenBalanceCache.cache = Map.empty, tokenCacheVersion = 1\<rparr>"

section \<open>Token discovery\<close>

subsection \<open>The normalisation of the USD value\<close>




subsection \<open>The filter of \<open>fetchTokens\<close>\<close>

text \<open>
  A normalised asset record, with the fields the filter reads. A string field that is
  absent is the empty string (both are falsy); \<open>supports_erc\<close> is \<open>None\<close> when it is not an
  array; \<open>native_token\<close> and \<open>is_spam\<close> are the truthiness of the fields; \<open>usd_value\<close> is
  what \<open>usdValue\<close> gave.
\<close>

record Asset =
  balance :: string
  balance_formatted :: string
  token_balance :: string
  token_address :: string
  contract_address :: string
  native_token :: bool
  supports_erc :: "string list option"
  usd_value :: "string option"
  is_spam :: bool

text \<open>\<open>asset.balance || asset.balance_formatted || asset.token_balance || '0'\<close>.\<close>

definition balanceValue :: "Asset \<Rightarrow> string" where
  "balanceValue asset =
     (if Asset.balance asset \<noteq> [] then Asset.balance asset
      else if balance_formatted asset \<noteq> [] then balance_formatted asset
      else if token_balance asset \<noteq> [] then token_balance asset
      else ''0'')"

text \<open>\<open>asset.token_address || asset.contract_address || ''\<close>.\<close>

definition tokenAddress :: "Asset \<Rightarrow> string" where
  "tokenAddress asset =
     (if token_address asset \<noteq> [] then token_address asset else Asset.contract_address asset)"

definition isNative :: "Asset \<Rightarrow> bool" where
  "isNative asset =
     (Asset.native_token asset \<or>
      (tokenAddress asset \<noteq> [] \<and>
       toLowerCase (tokenAddress asset) = ''0xeeeeeeeeeeeeeeeeeeeeeeeeeeeeeeeeeeeeeeee''))"

definition hasTokenAddress :: "Asset \<Rightarrow> bool" where
  "hasTokenAddress asset = (tokenAddress asset \<noteq> [])"

definition isErc20 :: "Asset \<Rightarrow> bool" where
  "isErc20 asset =
     (if isNative asset then False
      else (case Asset.supports_erc asset of None \<Rightarrow> False | Some tags \<Rightarrow> ''erc20'' \<in> set tags) \<or>
           (hasTokenAddress asset \<and>
            tokenAddress asset \<noteq> ''0x0000000000000000000000000000000000000000'' \<and>
            toLowerCase (tokenAddress asset) \<noteq> ''0xeeeeeeeeeeeeeeeeeeeeeeeeeeeeeeeeeeeeeeee''))"

definition isValidTokenType :: "Asset \<Rightarrow> bool" where
  "isValidTokenType asset = (isNative asset \<or> isErc20 asset)"

text \<open>\<open>parseFloat(asset.usd_value || '0')\<close>.\<close>

definition assetQuote :: "Asset \<Rightarrow> number" where
  "assetQuote asset =
     parseFloat (case usd_value asset of None \<Rightarrow> ''0'' | Some v \<Rightarrow> if v = [] then ''0'' else v)"

definition hasValue :: "Asset \<Rightarrow> bool" where
  "hasValue asset = (isZero (assetQuote asset) \<or> isGreater (assetQuote asset) MIN_TOKEN_VALUE_USD)"

definition hasBalance :: "Asset \<Rightarrow> bool" where
  "hasBalance asset =
     (balanceValue asset \<noteq> [] \<and> balanceValue asset \<noteq> ''0'' \<and>
      isGreater (parseFloat (balanceValue asset)) (Finite 0))"

definition isNotSpam :: "Asset \<Rightarrow> bool" where
  "isNotSpam asset = (\<not> Asset.is_spam asset)"

definition isVerified :: "(string \<Rightarrow> bool) \<Rightarrow> Asset \<Rightarrow> bool" where
  "isVerified verify asset =
     (isNative asset \<or> (tokenAddress asset \<noteq> [] \<and> verify (tokenAddress asset)))"

text \<open>The callback of \<open>assetsWithPrices.filter\<close>; \<open>verify\<close> is the registry's \<open>isTokenVerified\<close>.\<close>

definition keepAsset :: "(string \<Rightarrow> bool) \<Rightarrow> Asset \<Rightarrow> bool" where
  "keepAsset verify asset =
     (if isNative asset then hasBalance asset \<and> isNotSpam asset
      else isValidTokenType asset \<and> hasValue asset \<and> hasBalance asset \<and> isNotSpam asset \<and>
           isVerified verify asset)"

definition filteredAssets :: "(string \<Rightarrow> bool) \<Rightarrow> Asset list \<Rightarrow> Asset list" where
  "filteredAssets verify assets = filter (keepAsset verify) assets"




definition nativeAsset :: Asset where
  "nativeAsset =
     \<lparr>balance = ''1000'', balance_formatted = ''1000'', token_balance = ''1000'',
      token_address = ''0xEeeeeEeeeEeEeeEeEeEeeEEEeeeeEeeeeeeeEEeE'', contract_address = [],
      native_token = False, supports_erc = None, usd_value = Some ''0.001'', is_spam = False\<rparr>"



subsection \<open>The head of \<open>fetchTokens\<close>\<close>

datatype discovery_error = UnsupportedChain int | ApiKeysNotConfigured

definition MORALIS_BASE_URL :: string where
  "MORALIS_BASE_URL = ''https://deep-index.moralis.io/api/v2.2''"

text \<open>
  From the chain lookup to the URL of the request: either the error raised before any
  request, or the URL that is fetched. \<open>primaryKey\<close> and \<open>fallbackKey\<close> are the two API keys
  of the environment, empty when not configured.
\<close>

definition fetchTokensRequest ::
  "int option \<Rightarrow> string \<Rightarrow> string \<Rightarrow> string \<Rightarrow> int \<Rightarrow> discovery_error + string" where
  "fetchTokensRequest MONAD primaryKey fallbackKey walletAddress chainId =
     (let chainName = getMoralisChainName MONAD chainId in
      if chainName = [] then Inl (UnsupportedChain chainId)
      else if primaryKey = [] \<and> fallbackKey = [] then Inl ApiKeysNotConfigured
      else Inr (MORALIS_BASE_URL @ ''/wallets/'' @ walletAddress @ ''/tokens?chain='' @ chainName @
                ''&exclude_spam=true&exclude_unverified_contracts=true&limit=100''))"

section \<open>Properties of the transfer builder\<close>

subsection \<open>The steps of a build\<close>

lemma precheckLoop_result:
  "precheckLoop call account cs (vs, v, f) =
     (vs @ filter (succeeds call account) cs,
      v + length (filter (succeeds call account) cs),
      f + length (filter (\<lambda>c. \<not> succeeds call account c) cs))"
  by (induction cs arbitrary: vs v f) (simp_all add: succeeds_def)

text \<open>What a successful build went through.\<close>

lemma buildTransferCalls_Inr:
  assumes "buildTransferCalls isAddress publicClient wallet balanceData tokens targetAddress chainId = Inr r"
  obtains call account candidates pcs nativeCall where
    "isAddress targetAddress"
    "publicClient = Some call"
    "wallet = Some account"
    "account \<noteq> []"
    "allERC20Tokens tokens = Inr candidates"
    "precheckCalls targetAddress candidates = Inr pcs"
    "nativeTransferCall tokens targetAddress chainId balanceData = Inr nativeCall"
    "calls r = finalCalls (allValidCalls (filter (succeeds call account) pcs) nativeCall)"
    "calls r \<noteq> []"
    "precheckResult r =
       \<lparr>total = length pcs,
        valid = length (filter (succeeds call account) pcs),
        failed = length (filter (\<lambda>c. \<not> succeeds call account c) pcs)\<rparr>"
  using assms unfolding buildTransferCalls_def
  by (auto simp: Let_def precheckLoop_result split: if_splits option.splits sum.splits)

lemma filterE_Inr:
  "filterE p xs = Inr ys \<Longrightarrow> ys = filter (\<lambda>x. p x = Inr True) xs \<and> (\<forall>x\<in>set xs. \<exists>b. p x = Inr b)"
  by (induction xs arbitrary: ys) (auto split: sum.splits if_splits)

lemma isCandidate_True:
  "isCandidate t = Inr True \<longleftrightarrow> positiveBalance t \<and> \<not> Token.native_token t"
  by (auto simp: isCandidate_def positiveBalance_def split: option.splits)

lemma allERC20Tokens_Inr:
  assumes "allERC20Tokens tokens = Inr candidates"
  shows "candidates =
           take 20 (sortDescending Token.quote
             (filter (\<lambda>t. positiveBalance t \<and> \<not> Token.native_token t) tokens))"
  using assms
  by (auto simp: allERC20Tokens_def isCandidate_True split: sum.splits dest!: filterE_Inr)

lemma set_sortDescending [simp]: "set (sortDescending key xs) = set xs"
  by (simp add: sortDescending_def)

lemma length_sortDescending [simp]: "length (sortDescending key xs) = length xs"
  by (simp add: sortDescending_def)

lemma mset_sortDescending [simp]: "mset (sortDescending key xs) = mset xs"
  by (simp add: sortDescending_def)

lemma sortDescending_take_drop:
  assumes "x \<in> set (take n (sortDescending key xs))" and "y \<in> set (drop n (sortDescending key xs))"
  shows "key y \<le> key x"
proof -
  let ?s = "sortDescending key xs"
  have "sorted (map (\<lambda>x. - key x) ?s)"
    unfolding sortDescending_def by (rule sorted_sort_key)
  then have "sorted (map (\<lambda>x. - key x) (take n ?s) @ map (\<lambda>x. - key x) (drop n ?s))"
    by (simp flip: map_append)
  then have "\<forall>a\<in>set (map (\<lambda>x. - key x) (take n ?s)). \<forall>b\<in>set (map (\<lambda>x. - key x) (drop n ?s)). a \<le> b"
    by (simp add: sorted_append)
  with assms have "- key x \<le> - key y" by auto
  then show ?thesis by simp
qed

lemma precheckCalls_Inr:
  "precheckCalls targetAddress ts = Inr pcs \<Longrightarrow>
   list_all2 (\<lambda>t c. \<exists>b. BigInt (balanceOrZero t) = Some b \<and> b \<noteq> 0 \<and> c = erc20Call targetAddress t b)
     (filter (\<lambda>t. BigInt (balanceOrZero t) \<noteq> Some 0) ts) pcs"
  by (induction ts arbitrary: pcs) (auto split: option.splits if_splits sum.splits)

lemma filter_positive_id:
  assumes "\<forall>t\<in>set ts. positiveBalance t"
  shows "filter (\<lambda>t. BigInt (balanceOrZero t) \<noteq> Some 0) ts = ts"
  using assms by (induction ts) (auto simp: positiveBalance_def split: option.splits)

lemma length_finalCalls: "length (finalCalls cs) = min 10 (length cs)"
  by (simp add: finalCalls_def maxTransfers_def)

lemma length_allValidCalls:
  "length (allValidCalls vs n) = length vs + (case n of None \<Rightarrow> 0 | Some c \<Rightarrow> 1)"
  by (simp add: allValidCalls_def split: option.splits)

lemma calls_from_pcs:
  "precheckCalls targetAddress ts = Inr pcs \<Longrightarrow> c \<in> set pcs \<Longrightarrow>
   \<exists>t\<in>set ts. \<exists>b. BigInt (balanceOrZero t) = Some b \<and> b \<noteq> 0 \<and> c = erc20Call targetAddress t b"
  by (induction ts arbitrary: pcs) (auto split: option.splits if_splits sum.splits)

lemma set_finalCalls: "set (finalCalls cs) \<subseteq> TransferCall.truncate ` set cs"
  by (auto simp: finalCalls_def dest: in_set_takeD)

lemma set_allValidCalls:
  "set (allValidCalls vs n) = set vs \<union> (case n of None \<Rightarrow> {} | Some c \<Rightarrow> {c})"
  by (auto simp: allValidCalls_def split: option.splits)

lemma final_call_cases:
  assumes "c \<in> set (finalCalls (allValidCalls vs n))"
  shows "(\<exists>v\<in>set vs. c = TransferCall.truncate v) \<or> (\<exists>m. n = Some m \<and> c = TransferCall.truncate m)"
  using assms set_finalCalls [of "allValidCalls vs n"]
  by (auto simp: set_allValidCalls split: option.splits)

text \<open>
  Where the stable sort puts an element that was appended last: behind the elements of at
  least its own key, before those of a smaller key.
\<close>

lemma sortDescending_snoc:
  "sortDescending key (xs @ [x]) =
     filter (\<lambda>y. key x \<le> key y) (sortDescending key xs) @ x #
     filter (\<lambda>y. key y < key x) (sortDescending key xs)"
proof -
  let ?f = "\<lambda>y. - key y"
  let ?S = "sort_key ?f xs"
  let ?A = "filter (\<lambda>y. key x \<le> key y) ?S"
  let ?B = "filter (\<lambda>y. key y < key x) ?S"
  have B: "?B = filter (\<lambda>y. \<not> key x \<le> key y) ?S"
    by (rule filter_cong) auto
  have m: "mset (?A @ x # ?B) = mset (xs @ [x])"
    unfolding B by (simp add: multiset_partition [symmetric] del: filter_mset_eq_conv)
  have st: "filter (\<lambda>y. ?f k = ?f y) (?A @ x # ?B) = filter (\<lambda>y. ?f k = ?f y) (xs @ [x])" for k
  proof -
    have S: "filter (\<lambda>y. ?f k = ?f y) ?S = filter (\<lambda>y. ?f k = ?f y) xs"
      using sort_key_stable [of ?f "?f k" xs] by (simp add: eq_commute)
    consider "key k = key x" | "key x < key k" | "key k < key x" by force
    then show ?thesis
    proof cases
      case 1
      then have "filter (\<lambda>y. ?f k = ?f y) ?A = filter (\<lambda>y. ?f k = ?f y) ?S"
        "filter (\<lambda>y. ?f k = ?f y) ?B = []"
        by (auto simp: filter_empty_conv intro!: filter_cong)
      with 1 S show ?thesis by simp
    next
      case 2
      then have "filter (\<lambda>y. ?f k = ?f y) ?A = filter (\<lambda>y. ?f k = ?f y) ?S"
        "filter (\<lambda>y. ?f k = ?f y) ?B = []"
        by (auto simp: filter_empty_conv intro!: filter_cong)
      with 2 S show ?thesis by simp
    next
      case 3
      then have "filter (\<lambda>y. ?f k = ?f y) ?B = filter (\<lambda>y. ?f k = ?f y) ?S"
        "filter (\<lambda>y. ?f k = ?f y) ?A = []"
        by (auto simp: filter_empty_conv intro!: filter_cong)
      with 3 S show ?thesis by simp
    qed
  qed
  have so: "sorted (map ?f (?A @ x # ?B))"
  proof -
    have "sorted (map ?f ?S)" by simp
    then have "sorted (map ?f ?A)" "sorted (map ?f ?B)"
      by (simp_all add: sorted_map sorted_wrt_filter)
    then show ?thesis
      by (auto simp: sorted_append)
  qed
  have "sort_key ?f (xs @ [x]) = ?A @ x # ?B"
    using m _ so by (rule properties_for_sort_key) (rule st)
  then show ?thesis by (simp add: sortDescending_def)
qed

lemma length_filter_sortDescending:
  "length (filter P (sortDescending key xs)) = length (filter P xs)"
proof -
  have "mset (filter P (sortDescending key xs)) = mset (filter P xs)"
    by simp
  then show ?thesis by (rule mset_eq_length)
qed

lemma type_truncate: "type (TransferCall.truncate c) = type c"
  by (simp add: TransferCall.truncate_def)

text \<open>
  The native transfer, merged last, is among the first ten calls exactly when fewer than ten
  token calls have at least its value.
\<close>

lemma native_in_batch:
  assumes "\<forall>c\<in>set vs. type c = erc20_transfer" and "type m = native_transfer"
  shows "TransferCall.truncate m \<in> set (finalCalls (allValidCalls vs (Some m))) \<longleftrightarrow>
         length (filter (\<lambda>c. tokenQuoteOrZero m \<le> tokenQuoteOrZero c) vs) < 10"
proof -
  let ?S = "sortDescending tokenQuoteOrZero vs"
  let ?A = "filter (\<lambda>c. tokenQuoteOrZero m \<le> tokenQuoteOrZero c) ?S"
  let ?B = "filter (\<lambda>c. tokenQuoteOrZero c < tokenQuoteOrZero m) ?S"
  have all: "allValidCalls vs (Some m) = ?A @ m # ?B"
    by (simp add: allValidCalls_def sortDescending_snoc)
  have len: "length ?A = length (filter (\<lambda>c. tokenQuoteOrZero m \<le> tokenQuoteOrZero c) vs)"
    by (rule length_filter_sortDescending)
  show ?thesis
  proof (cases "length ?A < 10")
    case True
    then have "m \<in> set (take 10 (?A @ m # ?B))"
      by (simp add: take_Cons')
    then have "TransferCall.truncate m \<in> set (finalCalls (allValidCalls vs (Some m)))"
      unfolding all finalCalls_def maxTransfers_def by (metis image_eqI set_map)
    with True len show ?thesis by simp
  next
    case False
    then have "take 10 (?A @ m # ?B) = take 10 ?A" by simp
    then have "set (finalCalls (allValidCalls vs (Some m))) \<subseteq> TransferCall.truncate ` set vs"
      unfolding all finalCalls_def maxTransfers_def by (auto dest: in_set_takeD)
    moreover have "TransferCall.truncate m \<notin> TransferCall.truncate ` set vs"
    proof
      assume "TransferCall.truncate m \<in> TransferCall.truncate ` set vs"
      then obtain c where "c \<in> set vs" "TransferCall.truncate m = TransferCall.truncate c" by auto
      then have "type (TransferCall.truncate m) = type (TransferCall.truncate c)" by simp
      with assms \<open>c \<in> set vs\<close> show False by (simp add: type_truncate)
    qed
    ultimately show ?thesis using False len by auto
  qed
qed

lemma nativeTransferCall_configured:
  assumes "NATIVE_TOKEN_RESERVE chainId = Some reserve" and "parseEther reserve = Some R"
  shows "nativeTransferCall tokens targetAddress chainId balanceData =
           Inr (if R < nativeBalance balanceData
                then Some \<lparr>to = targetAddress, value = nativeBalance balanceData - R, data = None,
                           type = native_transfer, tokenQuote = Some (nativeQuote tokens),
                           token = find Token.native_token tokens\<rparr>
                else None)"
proof -
  from assms have "reserve \<noteq> []"
    by (auto simp: parseEther_def)
  with assms show ?thesis
    by (simp add: nativeTransferCall_def)
qed

lemma filterE_isCandidate_Inl: "filterE isCandidate ts = Inl e \<Longrightarrow> e = SyntaxError"
  by (induction ts) (auto simp: isCandidate_def split: sum.splits option.splits)

lemma precheckCalls_Inl:
  "precheckCalls targetAddress ts = Inl e \<Longrightarrow> e = SyntaxError \<or> e = RangeError"
  by (induction ts) (auto split: sum.splits option.splits if_splits)

lemma nativeTransferCall_Inl:
  "nativeTransferCall tokens targetAddress chainId balanceData = Inl e \<Longrightarrow> e = InvalidDecimalNumber"
  by (auto simp: nativeTransferCall_def Let_def split: option.splits if_splits)

lemma length_hexDigits:
  "0 < k \<Longrightarrow> n < 16 ^ k \<Longrightarrow> length (hexDigits n) \<le> k"
proof (induction n arbitrary: k rule: hexDigits.induct)
  case (1 n)
  show ?case
  proof (cases "n < 16")
    case True
    with "1.prems" show ?thesis by (subst hexDigits.simps) simp
  next
    case False
    with "1.prems" have k: "1 < k"
      by (cases "k = 1") auto
    then obtain j where j: "k = Suc j" "0 < j"
      by (cases k) auto
    define X :: int where "X = 16 ^ j"
    from "1.prems" j have "n < 16 * X"
      by (simp add: X_def)
    then have "n div 16 < X"
      by presburger
    then have "n div 16 < 16 ^ j"
      by (simp add: X_def)
    with "1.IH" [OF False j(2)] have "length (hexDigits (n div 16)) \<le> j" .
    with False j show ?thesis by (subst hexDigits.simps) simp
  qed
qed

lemma length_toString16:
  assumes "0 \<le> b" and "b < 2 ^ 256"
  shows "length (toString16 b) \<le> 64"
proof -
  have "(2::int) ^ 256 = 16 ^ 64" by simp
  with assms show ?thesis
    by (simp add: toString16_def length_hexDigits)
qed

lemma encodeTransfer_layout:
  assumes "length targetAddress = 42"
  shows "encodeTransfer targetAddress b =
           ''0xa9059cbb'' @ replicate 24 CHR ''0'' @ drop 2 targetAddress @
           replicate (64 - length (toString16 b)) CHR ''0'' @ toString16 b"
  using assms by (simp add: encodeTransfer_def padStart_def Let_def)

lemma encodeTransfer_lowercase:
  assumes "length targetAddress = 42" and "toLowerCase targetAddress = targetAddress"
  shows "encodeTransfer targetAddress b = transferData_spec targetAddress b"
proof -
  from assms(2) have "toLowerCase (drop 2 targetAddress) = drop 2 targetAddress"
    by (metis drop_map toLowerCase_def)
  with assms(1) show ?thesis
    by (simp add: encodeTransfer_layout transferData_spec_def)
qed

lemma length_encodeTransfer:
  assumes "length targetAddress = 42" and "0 \<le> b" and "b < 2 ^ 256"
  shows "length (encodeTransfer targetAddress b) = 138"
  using length_toString16 [OF assms(2,3)] assms(1)
  by (simp add: encodeTransfer_layout)

lemma nativeTransferCall_type:
  "nativeTransferCall tokens targetAddress chainId balanceData = Inr (Some m) \<Longrightarrow>
   type m = native_transfer"
  by (auto simp: nativeTransferCall_def Let_def split: option.splits if_splits)

lemma candidates_eligible:
  assumes "allERC20Tokens tokens = Inr candidates" and "t \<in> set candidates"
  shows "t \<in> set tokens \<and> positiveBalance t \<and> \<not> Token.native_token t"
  using assms by (auto dest!: allERC20Tokens_Inr in_set_takeD)

lemma example_build:
  "buildTransferCalls addressRegex (Some exampleChain) (Some exampleSender) (Some 3000000000000000)
     exampleTokens exampleRecipient 1 = Inr exampleResult"
  by code_simp

subsection \<open>The claims\<close>

text \<open>
  C10. For every successful build, the returned pre-check result satisfies
  \<open>total = valid + failed\<close>: \<open>total\<close> is the number of encoded pre-check candidates,
  \<open>valid\<close> the number of candidates whose simulation succeeded, which are exactly the calls
  carried forward to the merge step, and \<open>failed\<close> the number whose simulation reverted.
\<close>

theorem precheck_total_is_valid_plus_failed:
  assumes "buildTransferCalls isAddress publicClient wallet balanceData tokens targetAddress chainId = Inr r"
  shows "\<exists>call account candidates pcs nativeCall.
           publicClient = Some call \<and> wallet = Some account \<and>
           allERC20Tokens tokens = Inr candidates \<and>
           precheckCalls targetAddress candidates = Inr pcs \<and>
           nativeTransferCall tokens targetAddress chainId balanceData = Inr nativeCall \<and>
           total (precheckResult r) = length pcs \<and>
           valid (precheckResult r) = length (filter (succeeds call account) pcs) \<and>
           failed (precheckResult r) = length (filter (\<lambda>c. \<not> succeeds call account c) pcs) \<and>
           calls r = finalCalls (allValidCalls (filter (succeeds call account) pcs) nativeCall) \<and>
           total (precheckResult r) = valid (precheckResult r) + failed (precheckResult r)"
proof -
  from assms obtain call account candidates pcs nativeCall where b:
    "publicClient = Some call" "wallet = Some account"
    "allERC20Tokens tokens = Inr candidates"
    "precheckCalls targetAddress candidates = Inr pcs"
    "nativeTransferCall tokens targetAddress chainId balanceData = Inr nativeCall"
    "calls r = finalCalls (allValidCalls (filter (succeeds call account) pcs) nativeCall)"
    "precheckResult r =
       \<lparr>total = length pcs,
        valid = length (filter (succeeds call account) pcs),
        failed = length (filter (\<lambda>c. \<not> succeeds call account c) pcs)\<rparr>"
    by (rule buildTransferCalls_Inr)
  have "length pcs =
        length (filter (succeeds call account) pcs) +
        length (filter (\<lambda>c. \<not> succeeds call account c) pcs)"
    by (rule sum_length_filter_compl [symmetric])
  with b show ?thesis by simp
qed

theorem precheck_total_is_valid_plus_failed_witness:
  "buildTransferCalls addressRegex (Some exampleChain) (Some exampleSender)
     (Some 3000000000000000) exampleTokens exampleRecipient 1 = Inr exampleResult \<and>
   total (precheckResult exampleResult) =
     valid (precheckResult exampleResult) + failed (precheckResult exampleResult)"
  using precheck_total_is_valid_plus_failed [OF example_build] example_build by blast

text \<open>Every configured reserve is a positive amount, so the reserve never fails to parse.\<close>

lemma reserve_parses:
  assumes "NATIVE_TOKEN_RESERVE chainId = Some reserve"
  shows "\<exists>R. parseEther reserve = Some R \<and> 0 < R"
proof -
  have "parseEther ''0.002248'' = Some 2248000000000000"
    "parseEther ''0.04496'' = Some 44960000000000000"
    "parseEther ''0.0001724'' = Some 172400000000000"
    "parseEther ''0.0001124'' = Some 112400000000000"
    by code_simp+
  moreover from assms have "reserve \<in> {''0.002248'', ''0.04496'', ''0.0001724'', ''0.0001124''}"
    by (auto simp: NATIVE_TOKEN_RESERVE_def split: if_splits)
  ultimately show ?thesis by auto
qed

text \<open>
  C3 states that a build includes a native transfer if and only if the native balance
  exceeds the reserve. The transfer is prepared under exactly that condition, but it is
  merged with the token transfers, ranked by value and cut to ten calls: with twenty tokens
  of higher value passing the pre-check, the batch returned on Ethereum for a balance above
  the reserve holds ten token transfers and no native transfer.
\<close>

theorem native_transfer_cut_by_cap_counterexample:
  "NATIVE_TOKEN_RESERVE 1 = Some ''0.002248'' \<and>
   parseEther ''0.002248'' = Some 2248000000000000 \<and>
   nativeTransferCall manyTokens exampleRecipient 1 (Some 3000000000000000) =
     Inr (Some \<lparr>to = exampleRecipient, value = 752000000000000, data = None,
                 type = native_transfer, tokenQuote = Some 0, token = None\<rparr>) \<and>
   buildTransferCalls addressRegex (Some exampleChain) (Some exampleSender)
     (Some 3000000000000000) manyTokens exampleRecipient 1 = Inr manyResult \<and>
   list_all (\<lambda>c. type c = erc20_transfer) (calls manyResult)"
  by code_simp

text \<open>
  C3, as the code has it. On a chain with a configured reserve \<open>R\<close>, the builder prepares a
  native transfer for the merge if and only if the sender's native balance is strictly
  greater than \<open>R\<close> (a balance equal to \<open>R\<close> yields none), to the destination and of value
  exactly balance minus \<open>R\<close>. In a returned batch every native transfer is that call, so
  none appears when the balance does not exceed \<open>R\<close>. The merge ranks the calls by value
  with a stable sort, the native transfer being merged last, and keeps the first ten: the
  batch holds the native transfer if and only if the balance exceeds \<open>R\<close> and fewer than ten
  of the token calls that passed the pre-check have a value at least that of the native
  token (its quote, zero when the token list has no native token). In particular it holds
  it whenever fewer than ten token calls passed.
\<close>

theorem native_transfer_iff_balance_exceeds_reserve:
  assumes "NATIVE_TOKEN_RESERVE chainId = Some reserve" and "parseEther reserve = Some R"
  shows "((\<exists>c. nativeTransferCall tokens targetAddress chainId balanceData = Inr (Some c)) \<longleftrightarrow>
            R < nativeBalance balanceData) \<and>
         (nativeBalance balanceData \<le> R \<longrightarrow>
            nativeTransferCall tokens targetAddress chainId balanceData = Inr None) \<and>
         (\<forall>c. nativeTransferCall tokens targetAddress chainId balanceData = Inr (Some c) \<longrightarrow>
            to c = targetAddress \<and> value c = nativeBalance balanceData - R \<and>
            TransferCall.data c = None \<and> type c = native_transfer) \<and>
         (\<forall>isAddress publicClient wallet r.
            buildTransferCalls isAddress publicClient wallet balanceData tokens targetAddress chainId = Inr r \<longrightarrow>
            (\<forall>c\<in>set (calls r). type c = native_transfer \<longrightarrow>
               R < nativeBalance balanceData \<and>
               c = \<lparr>to = targetAddress, value = nativeBalance balanceData - R, data = None,
                    type = native_transfer\<rparr>) \<and>
            (R < nativeBalance balanceData \<and> valid (precheckResult r) < 10 \<longrightarrow>
               \<lparr>to = targetAddress, value = nativeBalance balanceData - R, data = None,
                type = native_transfer\<rparr> \<in> set (calls r)) \<and>
            (\<exists>call account candidates pcs.
               publicClient = Some call \<and> wallet = Some account \<and>
               allERC20Tokens tokens = Inr candidates \<and>
               precheckCalls targetAddress candidates = Inr pcs \<and>
               (\<forall>c\<in>set pcs. \<exists>t\<in>set candidates. tokenQuoteOrZero c = Token.quote t) \<and>
               (\<lparr>to = targetAddress, value = nativeBalance balanceData - R, data = None,
                 type = native_transfer\<rparr> \<in> set (calls r) \<longleftrightarrow>
                R < nativeBalance balanceData \<and>
                length (filter (\<lambda>c. succeeds call account c \<and>
                                     nativeQuote tokens \<le> tokenQuoteOrZero c) pcs) < 10)))"
proof -
  note n = nativeTransferCall_configured [OF assms, of tokens targetAddress balanceData]
  let ?native = "\<lparr>to = targetAddress, value = nativeBalance balanceData - R, data = None,
                   type = native_transfer\<rparr>"
  have batch: "R < nativeBalance balanceData \<and> c = ?native"
    if b: "buildTransferCalls isAddress publicClient wallet balanceData tokens targetAddress chainId = Inr r"
      and c: "c \<in> set (calls r)" "type c = native_transfer"
    for isAddress publicClient wallet r c
  proof -
    from b obtain call account candidates pcs nativeCall where
      pcs: "precheckCalls targetAddress candidates = Inr pcs" and
      nc: "nativeTransferCall tokens targetAddress chainId balanceData = Inr nativeCall" and
      cs: "calls r = finalCalls (allValidCalls (filter (succeeds call account) pcs) nativeCall)"
      by (rule buildTransferCalls_Inr)
    from c(1) cs consider
      v where "v \<in> set pcs" "c = TransferCall.truncate v" |
      m where "nativeCall = Some m" "c = TransferCall.truncate m"
      using final_call_cases [of c "filter (succeeds call account) pcs" nativeCall] by auto
    then show ?thesis
    proof cases
      case 1
      with pcs have "type c = erc20_transfer"
        by (auto dest!: calls_from_pcs simp: erc20Call_def TransferCall.truncate_def)
      with c(2) show ?thesis by simp
    next
      case 2
      with nc n show ?thesis
        by (auto simp: TransferCall.truncate_def split: if_splits)
    qed
  qed
  have rank: "\<exists>call account candidates pcs.
               publicClient = Some call \<and> wallet = Some account \<and>
               allERC20Tokens tokens = Inr candidates \<and>
               precheckCalls targetAddress candidates = Inr pcs \<and>
               (\<forall>c\<in>set pcs. \<exists>t\<in>set candidates. tokenQuoteOrZero c = Token.quote t) \<and>
               (?native \<in> set (calls r) \<longleftrightarrow>
                R < nativeBalance balanceData \<and>
                length (filter (\<lambda>c. succeeds call account c \<and>
                                     nativeQuote tokens \<le> tokenQuoteOrZero c) pcs) < 10)"
    if b: "buildTransferCalls isAddress publicClient wallet balanceData tokens targetAddress chainId = Inr r"
    for isAddress publicClient wallet r
  proof -
    from b obtain call account candidates pcs nativeCall where
      pc: "publicClient = Some call" and w: "wallet = Some account" and
      cand: "allERC20Tokens tokens = Inr candidates" and
      pcs: "precheckCalls targetAddress candidates = Inr pcs" and
      nc: "nativeTransferCall tokens targetAddress chainId balanceData = Inr nativeCall" and
      cs: "calls r = finalCalls (allValidCalls (filter (succeeds call account) pcs) nativeCall)"
      by (rule buildTransferCalls_Inr)
    let ?vs = "filter (succeeds call account) pcs"
    let ?m = "\<lparr>to = targetAddress, value = nativeBalance balanceData - R, data = None,
               type = native_transfer, tokenQuote = Some (nativeQuote tokens),
               token = find Token.native_token tokens\<rparr>"
    have erc: "\<forall>c\<in>set ?vs. type c = erc20_transfer"
      using pcs by (auto dest!: calls_from_pcs simp: erc20Call_def)
    have quotes: "\<forall>c\<in>set pcs. \<exists>t\<in>set candidates. tokenQuoteOrZero c = Token.quote t"
      using pcs by (auto dest!: calls_from_pcs simp: erc20Call_def tokenQuoteOrZero_def)
    have iff: "?native \<in> set (calls r) \<longleftrightarrow>
                R < nativeBalance balanceData \<and>
                length (filter (\<lambda>c. succeeds call account c \<and>
                                     nativeQuote tokens \<le> tokenQuoteOrZero c) pcs) < 10"
    proof (cases "R < nativeBalance balanceData")
      case True
      with nc n have m: "nativeCall = Some ?m" by simp
      have "TransferCall.truncate ?m \<in> set (finalCalls (allValidCalls ?vs (Some ?m))) \<longleftrightarrow>
            length (filter (\<lambda>c. tokenQuoteOrZero ?m \<le> tokenQuoteOrZero c) ?vs) < 10"
        using erc by (rule native_in_batch) simp
      moreover have "TransferCall.truncate ?m = ?native"
        by (simp add: TransferCall.truncate_def)
      moreover have "tokenQuoteOrZero ?m = nativeQuote tokens"
        by (simp add: tokenQuoteOrZero_def)
      moreover have "filter (\<lambda>c. nativeQuote tokens \<le> tokenQuoteOrZero c) ?vs =
                     filter (\<lambda>c. succeeds call account c \<and> nativeQuote tokens \<le> tokenQuoteOrZero c) pcs"
        by (simp add: conj_commute)
      ultimately show ?thesis using True cs m by simp
    next
      case False
      have "?native \<notin> set (calls r)"
      proof
        assume "?native \<in> set (calls r)"
        from batch [OF b this] False show False by simp
      qed
      with False show ?thesis by simp
    qed
    from pc w cand pcs quotes iff show ?thesis by blast
  qed
  have room: "?native \<in> set (calls r)"
    if b: "buildTransferCalls isAddress publicClient wallet balanceData tokens targetAddress chainId = Inr r"
      and r: "R < nativeBalance balanceData" "valid (precheckResult r) < 10"
    for isAddress publicClient wallet r
  proof -
    from b obtain call account candidates pcs nativeCall where
      "precheckCalls targetAddress candidates = Inr pcs" and
      nc: "nativeTransferCall tokens targetAddress chainId balanceData = Inr nativeCall" and
      cs: "calls r = finalCalls (allValidCalls (filter (succeeds call account) pcs) nativeCall)" and
      pr: "precheckResult r =
             \<lparr>total = length pcs,
              valid = length (filter (succeeds call account) pcs),
              failed = length (filter (\<lambda>c. \<not> succeeds call account c) pcs)\<rparr>"
      by (rule buildTransferCalls_Inr)
    let ?m = "\<lparr>to = targetAddress, value = nativeBalance balanceData - R, data = None,
               type = native_transfer, tokenQuote = Some (nativeQuote tokens),
               token = find Token.native_token tokens\<rparr>"
    let ?all = "allValidCalls (filter (succeeds call account) pcs) nativeCall"
    from nc n r(1) have m: "nativeCall = Some ?m" by simp
    from pr r(2) m have "length ?all \<le> 10"
      by (simp add: length_allValidCalls)
    then have "finalCalls ?all = map TransferCall.truncate ?all"
      by (simp add: finalCalls_def maxTransfers_def)
    moreover from m have "?m \<in> set ?all"
      by (simp add: set_allValidCalls)
    ultimately have "TransferCall.truncate ?m \<in> set (calls r)"
      using cs by (metis image_eqI set_map)
    then show ?thesis by (simp add: TransferCall.truncate_def)
  qed
  have first:
    "((\<exists>c. nativeTransferCall tokens targetAddress chainId balanceData = Inr (Some c)) \<longleftrightarrow>
        R < nativeBalance balanceData) \<and>
     (nativeBalance balanceData \<le> R \<longrightarrow>
        nativeTransferCall tokens targetAddress chainId balanceData = Inr None) \<and>
     (\<forall>c. nativeTransferCall tokens targetAddress chainId balanceData = Inr (Some c) \<longrightarrow>
        to c = targetAddress \<and> value c = nativeBalance balanceData - R \<and>
        TransferCall.data c = None \<and> type c = native_transfer)"
    using n by (auto split: if_splits)
  show ?thesis
    using first batch room rank by blast
qed

lemma reserve_ethereum: "NATIVE_TOKEN_RESERVE 1 = Some ''0.002248''"
  by (simp add: NATIVE_TOKEN_RESERVE_def)

lemma parseEther_ethereum: "parseEther ''0.002248'' = Some 2248000000000000"
  by code_simp

theorem native_transfer_iff_balance_exceeds_reserve_witness:
  "NATIVE_TOKEN_RESERVE 1 = Some ''0.002248'' \<and> parseEther ''0.002248'' = Some 2248000000000000 \<and>
   nativeTransferCall exampleTokens exampleRecipient 1 (Some 2248000000000000) = Inr None \<and>
   nativeTransferCall exampleTokens exampleRecipient 1 (Some 2248000000000001) =
     Inr (Some \<lparr>to = exampleRecipient, value = 1, data = None, type = native_transfer,
                 tokenQuote = Some 0, token = None\<rparr>) \<and>
   \<lparr>to = exampleRecipient, value = 752000000000000, data = None, type = native_transfer\<rparr>
     \<in> set (calls exampleResult) \<and>
   buildTransferCalls addressRegex (Some exampleChain) (Some exampleSender)
     (Some 3000000000000000) (manyTokens @ [exampleNativeToken]) exampleRecipient 1 =
     Inr rankedResult"
proof -
  note t = native_transfer_iff_balance_exceeds_reserve [OF reserve_ethereum parseEther_ethereum]
  have "nativeTransferCall exampleTokens exampleRecipient 1 (Some 2248000000000000) = Inr None"
    using t [where balanceData = "Some 2248000000000000" and tokens = exampleTokens
        and targetAddress = exampleRecipient]
    by (simp add: nativeBalance_def)
  moreover have "nativeTransferCall exampleTokens exampleRecipient 1 (Some 2248000000000001) =
     Inr (Some \<lparr>to = exampleRecipient, value = 1, data = None, type = native_transfer,
                 tokenQuote = Some 0, token = None\<rparr>)"
    by code_simp
  moreover have "\<lparr>to = exampleRecipient, value = 752000000000000, data = None, type = native_transfer\<rparr>
     \<in> set (calls exampleResult)"
  proof -
    have v: "valid (precheckResult exampleResult) < 10"
      by (simp add: exampleResult_def)
    have r: "(2248000000000000::int) < nativeBalance (Some 3000000000000000)"
      by (simp add: nativeBalance_def)
    from t [where balanceData = "Some 3000000000000000" and tokens = exampleTokens
        and targetAddress = exampleRecipient] example_build v r
    have "\<lparr>to = exampleRecipient, value = nativeBalance (Some 3000000000000000) - 2248000000000000,
           data = None, type = native_transfer\<rparr> \<in> set (calls exampleResult)"
      by blast
    then show ?thesis by (simp add: nativeBalance_def)
  qed
  moreover have "buildTransferCalls addressRegex (Some exampleChain) (Some exampleSender)
     (Some 3000000000000000) (manyTokens @ [exampleNativeToken]) exampleRecipient 1 =
     Inr rankedResult"
    by code_simp
  ultimately show ?thesis
    using reserve_ethereum parseEther_ethereum by simp
qed

text \<open>
  C4. For every token list given to the builder, when the build succeeds: the pre-check
  candidates are the tokens that are not native and have a positive balance, cut to the 20 of
  highest USD value (no token left out has a higher value than one taken), so their number
  is the minimum of 20 and the number of such tokens, and it is the reported total; the
  returned batch has as many calls as the minimum of 10 and the number of calls that passed
  the pre-check plus one when a native transfer was prepared.
\<close>

theorem candidate_and_batch_sizes:
  assumes "buildTransferCalls isAddress publicClient wallet balanceData tokens targetAddress chainId = Inr r"
  shows "\<exists>candidates rest nativeCall.
           allERC20Tokens tokens = Inr candidates \<and>
           mset (candidates @ rest) =
             mset (filter (\<lambda>t. positiveBalance t \<and> \<not> Token.native_token t) tokens) \<and>
           (\<forall>x\<in>set candidates. \<forall>y\<in>set rest. Token.quote y \<le> Token.quote x) \<and>
           length candidates =
             min 20 (length (filter (\<lambda>t. positiveBalance t \<and> \<not> Token.native_token t) tokens)) \<and>
           total (precheckResult r) = length candidates \<and>
           nativeTransferCall tokens targetAddress chainId balanceData = Inr nativeCall \<and>
           length (calls r) =
             min 10 (valid (precheckResult r) + (case nativeCall of None \<Rightarrow> 0 | Some c \<Rightarrow> 1))"
proof -
  let ?eligible = "filter (\<lambda>t. positiveBalance t \<and> \<not> Token.native_token t) tokens"
  let ?sorted = "sortDescending Token.quote ?eligible"
  from assms obtain call account candidates pcs nativeCall where
    cands: "allERC20Tokens tokens = Inr candidates" and
    pcs: "precheckCalls targetAddress candidates = Inr pcs" and
    nc: "nativeTransferCall tokens targetAddress chainId balanceData = Inr nativeCall" and
    cs: "calls r = finalCalls (allValidCalls (filter (succeeds call account) pcs) nativeCall)" and
    pr: "precheckResult r =
           \<lparr>total = length pcs,
            valid = length (filter (succeeds call account) pcs),
            failed = length (filter (\<lambda>c. \<not> succeeds call account c) pcs)\<rparr>"
    by (rule buildTransferCalls_Inr)
  from cands have c: "candidates = take 20 ?sorted"
    by (rule allERC20Tokens_Inr)
  have "mset (candidates @ drop 20 ?sorted) = mset ?eligible"
    unfolding c by simp
  moreover have "\<forall>x\<in>set candidates. \<forall>y\<in>set (drop 20 ?sorted). Token.quote y \<le> Token.quote x"
    unfolding c by (blast intro: sortDescending_take_drop)
  moreover have len: "length candidates = min 20 (length ?eligible)"
    unfolding c by simp
  moreover have "length pcs = length candidates"
  proof -
    have "\<forall>t\<in>set candidates. positiveBalance t"
      unfolding c by (auto dest: in_set_takeD)
    then have "filter (\<lambda>t. BigInt (balanceOrZero t) \<noteq> Some 0) candidates = candidates"
      by (rule filter_positive_id)
    with precheckCalls_Inr [OF pcs] show ?thesis
      by (auto dest: list_all2_lengthD)
  qed
  moreover have "length (calls r) =
      min 10 (valid (precheckResult r) + (case nativeCall of None \<Rightarrow> 0 | Some c \<Rightarrow> 1))"
    by (simp add: cs pr length_finalCalls length_allValidCalls)
  ultimately show ?thesis
    using cands nc pr by auto
qed

lemma many_build:
  "buildTransferCalls addressRegex (Some exampleChain) (Some exampleSender) None
     manyTokens exampleRecipient 1 = Inr manyResult"
  by code_simp

theorem candidate_and_batch_sizes_witness:
  "buildTransferCalls addressRegex (Some exampleChain) (Some exampleSender) None
     manyTokens exampleRecipient 1 = Inr manyResult \<and>
   length (filter (\<lambda>t. positiveBalance t \<and> \<not> Token.native_token t) manyTokens) = 25 \<and>
   total (precheckResult manyResult) = 20 \<and>
   valid (precheckResult manyResult) = 20 \<and>
   length (calls manyResult) = 10"
proof -
  have "length (filter (\<lambda>t. positiveBalance t \<and> \<not> Token.native_token t) manyTokens) = 25"
    by code_simp
  moreover have "valid (precheckResult manyResult) = 20"
    by (simp add: manyResult_def)
  moreover from candidate_and_batch_sizes [OF many_build]
  have "total (precheckResult manyResult) =
          min 20 (length (filter (\<lambda>t. positiveBalance t \<and> \<not> Token.native_token t) manyTokens)) \<and>
        (\<exists>nativeCall. nativeTransferCall manyTokens exampleRecipient 1 None = Inr nativeCall \<and>
           length (calls manyResult) =
             min 10 (valid (precheckResult manyResult) +
                     (case nativeCall of None \<Rightarrow> 0 | Some c \<Rightarrow> 1)))"
    by auto
  ultimately show ?thesis
    using many_build by auto
qed

text \<open>
  C1 states that the builder rejects a destination that is malformed, the zero address, or
  the sender's own address. The builder's validation looks at two things only: the
  destination's format and whether a wallet is connected. With a connected wallet, the zero
  address and the sender's own address both pass and a batch is built.
\<close>

theorem zero_address_and_own_address_accepted_counterexample:
  "addressRegex ''0x0000000000000000000000000000000000000000'' \<and>
   buildTransferCalls addressRegex (Some exampleChain) (Some exampleSender)
     (Some 3000000000000000) [] ''0x0000000000000000000000000000000000000000'' 1 =
     Inr \<lparr>calls = [\<lparr>to = ''0x0000000000000000000000000000000000000000'',
                      value = 752000000000000, data = None, type = native_transfer\<rparr>],
          precheckResult = \<lparr>total = 0, valid = 0, failed = 0\<rparr>\<rparr> \<and>
   addressRegex exampleSender \<and>
   buildTransferCalls addressRegex (Some exampleChain) (Some exampleSender)
     (Some 3000000000000000) [] exampleSender 1 =
     Inr \<lparr>calls = [\<lparr>to = exampleSender, value = 752000000000000, data = None,
                      type = native_transfer\<rparr>],
          precheckResult = \<lparr>total = 0, valid = 0, failed = 0\<rparr>\<rparr>"
  by code_simp

text \<open>
  C1, as the code has it. The build fails at once, with no batch, when the destination is
  not a well-formed address, whatever the other inputs; for a well-formed destination it
  fails at once when no wallet is connected; and for a well-formed destination with a
  connected wallet the validation step does not fail, whatever the destination is.
\<close>

theorem validation_rejects_malformed_destination_or_missing_wallet:
  "(\<not> isAddress targetAddress \<longrightarrow>
      buildTransferCalls isAddress publicClient wallet balanceData tokens targetAddress chainId =
        Inl InvalidTargetAddressFormat) \<and>
   (isAddress targetAddress \<and> (wallet = None \<or> wallet = Some []) \<longrightarrow>
      buildTransferCalls isAddress publicClient wallet balanceData tokens targetAddress chainId =
        Inl WalletNotConnected) \<and>
   (isAddress targetAddress \<and> wallet \<noteq> None \<and> wallet \<noteq> Some [] \<longrightarrow>
      buildTransferCalls isAddress publicClient wallet balanceData tokens targetAddress chainId \<noteq>
        Inl InvalidTargetAddressFormat \<and>
      buildTransferCalls isAddress publicClient wallet balanceData tokens targetAddress chainId \<noteq>
        Inl WalletNotConnected)"
proof (intro conjI impI)
  assume "\<not> isAddress targetAddress"
  then show "buildTransferCalls isAddress publicClient wallet balanceData tokens targetAddress chainId =
        Inl InvalidTargetAddressFormat"
    by (simp add: buildTransferCalls_def)
next
  assume "isAddress targetAddress \<and> (wallet = None \<or> wallet = Some [])"
  then show "buildTransferCalls isAddress publicClient wallet balanceData tokens targetAddress chainId =
        Inl WalletNotConnected"
    by (auto simp: buildTransferCalls_def)
next
  assume a: "isAddress targetAddress \<and> wallet \<noteq> None \<and> wallet \<noteq> Some []"
  show "buildTransferCalls isAddress publicClient wallet balanceData tokens targetAddress chainId \<noteq>
        Inl InvalidTargetAddressFormat"
    using a
    by (auto simp: buildTransferCalls_def allERC20Tokens_def Let_def precheckLoop_result
        split: option.splits sum.splits if_splits
        dest: filterE_isCandidate_Inl precheckCalls_Inl nativeTransferCall_Inl)
  show "buildTransferCalls isAddress publicClient wallet balanceData tokens targetAddress chainId \<noteq>
        Inl WalletNotConnected"
    using a
    by (auto simp: buildTransferCalls_def allERC20Tokens_def Let_def precheckLoop_result
        split: option.splits sum.splits if_splits
        dest: filterE_isCandidate_Inl precheckCalls_Inl nativeTransferCall_Inl)
qed

theorem validation_rejects_malformed_destination_or_missing_wallet_witness:
  "\<not> addressRegex ''0x1234'' \<and>
   addressRegex exampleRecipient \<and>
   buildTransferCalls addressRegex (Some exampleChain) (Some exampleSender)
     (Some 3000000000000000) exampleTokens ''0x1234'' 1 = Inl InvalidTargetAddressFormat \<and>
   buildTransferCalls addressRegex (Some exampleChain) None
     (Some 3000000000000000) exampleTokens exampleRecipient 1 = Inl WalletNotConnected \<and>
   buildTransferCalls addressRegex (Some exampleChain) (Some exampleSender)
     (Some 3000000000000000) exampleTokens exampleRecipient 1 \<noteq> Inl InvalidTargetAddressFormat"
proof -
  have a: "\<not> addressRegex ''0x1234''" and b: "addressRegex exampleRecipient"
    by code_simp+
  note t = validation_rejects_malformed_destination_or_missing_wallet
  from a t [of addressRegex "''0x1234''" "Some exampleChain" "Some exampleSender"
      "Some 3000000000000000" exampleTokens 1]
  have "buildTransferCalls addressRegex (Some exampleChain) (Some exampleSender)
     (Some 3000000000000000) exampleTokens ''0x1234'' 1 = Inl InvalidTargetAddressFormat"
    by blast
  moreover from b t [of addressRegex exampleRecipient "Some exampleChain" None
      "Some 3000000000000000" exampleTokens 1]
  have "buildTransferCalls addressRegex (Some exampleChain) None
     (Some 3000000000000000) exampleTokens exampleRecipient 1 = Inl WalletNotConnected"
    by blast
  moreover have "Some exampleSender \<noteq> Some []"
    by (simp add: exampleSender_def)
  with b t [of addressRegex exampleRecipient "Some exampleChain" "Some exampleSender"
      "Some 3000000000000000" exampleTokens 1]
  have "buildTransferCalls addressRegex (Some exampleChain) (Some exampleSender)
     (Some 3000000000000000) exampleTokens exampleRecipient 1 \<noteq> Inl InvalidTargetAddressFormat"
    by blast
  ultimately show ?thesis using a b by blast
qed

text \<open>
  C2 states that the call data carries the destination as 40 lowercase hexadecimal
  characters. The builder copies the characters of the destination string as they are: a
  destination given in checksum notation is encoded in mixed case. (And the padding of the
  amount never truncates: an amount of \<open>2^256\<close> would take 65 characters.)
\<close>

theorem destination_case_is_kept_counterexample:
  "addressRegex checksumRecipient \<and>
   buildTransferCalls addressRegex (Some exampleChain) (Some exampleSender) None
     [exampleToken ''0xaaaaaaaaaaaaaaaaaaaaaaaaaaaaaaaaaaaaaaaa'' ''1000'' 12] checksumRecipient 1 =
     Inr \<lparr>calls =
           [\<lparr>to = ''0xaaaaaaaaaaaaaaaaaaaaaaaaaaaaaaaaaaaaaaaa'', value = 0,
             data = Some ''0xa9059cbb0000000000000000000000005aAeb6053F3E94C9b9A09f33669435E7Ef1BeAed00000000000000000000000000000000000000000000000000000000000003e8'',
             type = erc20_transfer\<rparr>],
          precheckResult = \<lparr>total = 1, valid = 1, failed = 0\<rparr>\<rparr> \<and>
   transferData_spec checksumRecipient 1000 =
     ''0xa9059cbb0000000000000000000000005aaeb6053f3e94c9b9a09f33669435e7ef1beaed00000000000000000000000000000000000000000000000000000000000003e8'' \<and>
   encodeTransfer checksumRecipient 1000 \<noteq> transferData_spec checksumRecipient 1000 \<and>
   length (padStart 64 CHR ''0'' (toString16 (2 ^ 256))) = 65"
  by code_simp

text \<open>
  C2, as the code has it, for a build that succeeds. Every token selected for the pre-check
  has its call, and every token transfer of the returned batch belongs to a token of the
  input that is not native and has a positive balance \<open>b\<close>: it goes to the token's
  contract, carries no value, and its data is the selector \<open>0xa9059cbb\<close>, then 24 zeros and
  the 40 hexadecimal characters of the destination exactly as the destination string has
  them (so in lowercase when the destination is given in lowercase, where the data is the
  specification's), then \<open>b\<close> in lowercase hexadecimal padded with zeros on the left to 64
  characters (138 characters in all for a balance below \<open>2^256\<close>). The amount 1000 encodes
  as \<open>3e8\<close> padded with zeros to 64 characters.
\<close>

theorem erc20_call_data_encoding:
  assumes "buildTransferCalls isAddress publicClient wallet balanceData tokens targetAddress chainId = Inr r"
    and "addressRegex targetAddress"
  shows "(\<forall>c\<in>set (calls r). type c = erc20_transfer \<longrightarrow>
            (\<exists>t\<in>set tokens. \<exists>b.
               \<not> Token.native_token t \<and> BigInt (balanceOrZero t) = Some b \<and> 0 < b \<and>
               to c = Token.contract_address t \<and> value c = 0 \<and>
               TransferCall.data c =
                 Some (''0xa9059cbb'' @ replicate 24 CHR ''0'' @ drop 2 targetAddress @
                       replicate (64 - length (toString16 b)) CHR ''0'' @ toString16 b) \<and>
               (toLowerCase targetAddress = targetAddress \<longrightarrow>
                  TransferCall.data c = Some (transferData_spec targetAddress b)) \<and>
               (b < 2 ^ 256 \<longrightarrow> TransferCall.data c \<noteq> None \<and> length (the (TransferCall.data c)) = 138))) \<and>
         (\<exists>candidates pcs.
            allERC20Tokens tokens = Inr candidates \<and>
            precheckCalls targetAddress candidates = Inr pcs \<and>
            list_all2
              (\<lambda>t c. \<exists>b. BigInt (balanceOrZero t) = Some b \<and> 0 < b \<and>
                 TransferCall.data c =
                   Some (''0xa9059cbb'' @ replicate 24 CHR ''0'' @ drop 2 targetAddress @
                         replicate (64 - length (toString16 b)) CHR ''0'' @ toString16 b))
              candidates pcs) \<and>
         padStart 64 CHR ''0'' (toString16 1000) = replicate 61 CHR ''0'' @ ''3e8''"
proof -
  from assms(2) have len: "length targetAddress = 42"
    by (simp add: addressRegex_def)
  from assms(1) obtain call account candidates pcs nativeCall where
    cands: "allERC20Tokens tokens = Inr candidates" and
    pcs: "precheckCalls targetAddress candidates = Inr pcs" and
    nc: "nativeTransferCall tokens targetAddress chainId balanceData = Inr nativeCall" and
    cs: "calls r = finalCalls (allValidCalls (filter (succeeds call account) pcs) nativeCall)"
    by (rule buildTransferCalls_Inr)
  have main: "\<exists>t\<in>set tokens. \<exists>b.
               \<not> Token.native_token t \<and> BigInt (balanceOrZero t) = Some b \<and> 0 < b \<and>
               to c = Token.contract_address t \<and> value c = 0 \<and>
               TransferCall.data c =
                 Some (''0xa9059cbb'' @ replicate 24 CHR ''0'' @ drop 2 targetAddress @
                       replicate (64 - length (toString16 b)) CHR ''0'' @ toString16 b) \<and>
               (toLowerCase targetAddress = targetAddress \<longrightarrow>
                  TransferCall.data c = Some (transferData_spec targetAddress b)) \<and>
               (b < 2 ^ 256 \<longrightarrow> TransferCall.data c \<noteq> None \<and> length (the (TransferCall.data c)) = 138)"
    if c: "c \<in> set (calls r)" "type c = erc20_transfer" for c
  proof -
    from c(1) cs consider
      v where "v \<in> set pcs" "c = TransferCall.truncate v" |
      m where "nativeCall = Some m" "c = TransferCall.truncate m"
      using final_call_cases [of c "filter (succeeds call account) pcs" nativeCall] by auto
    then show ?thesis
    proof cases
      case 1
      from calls_from_pcs [OF pcs 1(1)] obtain t b where
        t: "t \<in> set candidates" "BigInt (balanceOrZero t) = Some b" "b \<noteq> 0"
          "v = erc20Call targetAddress t b"
        by blast
      from candidates_eligible [OF cands t(1)] have
        e: "t \<in> set tokens" "positiveBalance t" "\<not> Token.native_token t"
        by simp_all
      from e(2) t(2) have pos: "0 < b"
        by (simp add: positiveBalance_def)
      have d: "TransferCall.data c = Some (encodeTransfer targetAddress b)"
        "to c = Token.contract_address t" "value c = 0"
        using 1(2) t(4) by (simp_all add: erc20Call_def TransferCall.truncate_def)
      show ?thesis
        using e t(2) pos d encodeTransfer_layout [OF len, of b]
          encodeTransfer_lowercase [OF len, of b] length_encodeTransfer [OF len, of b]
        by (intro bexI [of _ t] exI [of _ b]) auto
    next
      case 2
      with nc have "type c = native_transfer"
        by (auto dest: nativeTransferCall_type simp: TransferCall.truncate_def)
      with c(2) show ?thesis by simp
    qed
  qed
  have selected: "list_all2
      (\<lambda>t c. \<exists>b. BigInt (balanceOrZero t) = Some b \<and> 0 < b \<and>
         TransferCall.data c =
           Some (''0xa9059cbb'' @ replicate 24 CHR ''0'' @ drop 2 targetAddress @
                 replicate (64 - length (toString16 b)) CHR ''0'' @ toString16 b))
      candidates pcs"
  proof -
    have pos: "\<forall>t\<in>set candidates. positiveBalance t"
      using candidates_eligible [OF cands] by blast
    then have "filter (\<lambda>t. BigInt (balanceOrZero t) \<noteq> Some 0) candidates = candidates"
      by (rule filter_positive_id)
    with precheckCalls_Inr [OF pcs] have
      "list_all2 (\<lambda>t c. \<exists>b. BigInt (balanceOrZero t) = Some b \<and> b \<noteq> 0 \<and>
                   c = erc20Call targetAddress t b) candidates pcs"
      by simp
    then show ?thesis
    proof (rule list.rel_mono_strong)
      fix t c
      assume t: "t \<in> set candidates" and "c \<in> set pcs"
        and "\<exists>b. BigInt (balanceOrZero t) = Some b \<and> b \<noteq> 0 \<and> c = erc20Call targetAddress t b"
      then obtain b where b: "BigInt (balanceOrZero t) = Some b" "c = erc20Call targetAddress t b"
        by blast
      from pos t have "positiveBalance t" by blast
      with b(1) have "0 < b"
        by (simp add: positiveBalance_def)
      with b show "\<exists>b. BigInt (balanceOrZero t) = Some b \<and> 0 < b \<and>
         TransferCall.data c =
           Some (''0xa9059cbb'' @ replicate 24 CHR ''0'' @ drop 2 targetAddress @
                 replicate (64 - length (toString16 b)) CHR ''0'' @ toString16 b)"
        by (simp add: erc20Call_def encodeTransfer_layout [OF len])
    qed
  qed
  have "padStart 64 CHR ''0'' (toString16 1000) = replicate 61 CHR ''0'' @ ''3e8''"
    by code_simp
  with main selected cands pcs show ?thesis by blast
qed

theorem erc20_call_data_encoding_witness:
  "buildTransferCalls addressRegex (Some exampleChain) (Some exampleSender)
     (Some 3000000000000000) exampleTokens exampleRecipient 1 = Inr exampleResult \<and>
   addressRegex exampleRecipient \<and>
   (\<exists>t\<in>set exampleTokens. \<exists>b.
      BigInt (balanceOrZero t) = Some b \<and>
      to (hd (calls exampleResult)) = Token.contract_address t \<and>
      TransferCall.data (hd (calls exampleResult)) = Some (transferData_spec exampleRecipient b))"
proof -
  have a: "addressRegex exampleRecipient"
    and l: "toLowerCase exampleRecipient = exampleRecipient"
    by code_simp+
  have h: "hd (calls exampleResult) \<in> set (calls exampleResult)"
    "type (hd (calls exampleResult)) = erc20_transfer"
    by (simp_all add: exampleResult_def)
  from erc20_call_data_encoding [OF example_build a] h l
  have "\<exists>t\<in>set exampleTokens. \<exists>b.
      BigInt (balanceOrZero t) = Some b \<and>
      to (hd (calls exampleResult)) = Token.contract_address t \<and>
      TransferCall.data (hd (calls exampleResult)) = Some (transferData_spec exampleRecipient b)"
    by blast
  with example_build a show ?thesis by blast
qed

section \<open>Properties of the registry and the caches\<close>

lemma fetchFailed_empty:
  assumes "previousSet g chainId = {||}"
  shows "snd (fetchFailed chainId now message (g, h)) =
           h\<lparr>error := Some message, apiStatus := Failed, verifiedTokens := {||},
             isReady := True, loading := False\<rparr>"
  using assms
  by (auto simp: fetchFailed_def previousSet_def Let_def split: option.splits)

text \<open>
  C7. If the request for the verified-token list fails and no non-empty set is stored for
  the chain, the registry is marked ready and \<open>isTokenVerified\<close> answers true for every
  address.
\<close>

theorem degraded_registry_verifies_every_address:
  assumes "cached g chainId now = None"
    and "requestFailed response"
    and "previousSet g chainId = {||}"
  shows "isReady (snd (fetchVerifiedTokens chainId now now' response (g, h))) \<and>
         (\<forall>tokenAddress.
            isTokenVerified (snd (fetchVerifiedTokens chainId now now' response (g, h))) tokenAddress)"
proof -
  from assms(1,2) obtain message where
    "fetchVerifiedTokens chainId now now' response (g, h) =
       fetchFailed chainId now' message (g, h\<lparr>loading := True, error := None\<rparr>)"
    by (auto simp: fetchVerifiedTokens_def requestFailed_def Let_def
        split: response.splits option.splits)
  with fetchFailed_empty [OF assms(3)] show ?thesis
    by (simp add: isTokenVerified_def)
qed

theorem degraded_registry_verifies_every_address_witness:
  "cached emptyCache 1 1000 = None \<and>
   requestFailed (Threw ''Failed to fetch'') \<and>
   previousSet emptyCache 1 = {||} \<and>
   isReady (snd (fetchVerifiedTokens 1 1000 1005 (Threw ''Failed to fetch'') (emptyCache, initialState))) \<and>
   isTokenVerified
     (snd (fetchVerifiedTokens 1 1000 1005 (Threw ''Failed to fetch'') (emptyCache, initialState)))
     ''0xbad0000000000000000000000000000000000bad''"
proof -
  have a: "cached emptyCache 1 1000 = None"
    and b: "requestFailed (Threw ''Failed to fetch'')"
    and c: "previousSet emptyCache 1 = {||}"
    by (simp_all add: cached_def emptyCache_def requestFailed_def previousSet_def)
  from degraded_registry_verifies_every_address [OF a b c, of 1005 initialState] a b c
  show ?thesis by blast
qed

lemma fetchVerifiedTokens_hit:
  assumes "cached g chainId now = Some c"
  shows "fetchVerifiedTokens chainId now now' response (g, h) =
           (g, h\<lparr>loading := True, error := None,
                 verifiedTokens := CacheEntry.verifiedTokens c,
                 apiStatus := CacheEntry.apiStatus c, loading := False, isReady := True\<rparr>)"
  using assms by (simp add: fetchVerifiedTokens_def Let_def)

text \<open>
  C8. A value stored in a cache is read back as long as less than the lifetime has passed
  and the global version has not changed; after the version is bumped the read misses, also
  within the lifetime. For the registry's cache: after a request that succeeded and stored
  its set at time \<open>t1\<close>, a later call within the lifetime finds the entry, leaves the cache
  as it is and sets the registry to the stored set, whatever a request would have returned;
  after the invalidation the entry is no longer found. For the token cache: the check after
  \<open>cacheSet\<close> gives back the stored list, and after the invalidation the empty list.
\<close>

theorem cache_round_trip_and_invalidation:
  assumes "now - t1 < CACHE_TTL"
    and "cached g chainId t0 = None"
    and "fetchVerifiedTokens chainId t0 t1 (Tokens tokens) (g, h) = (g1, h1)"
  shows "cached g1 chainId now =
           Some \<lparr>CacheEntry.verifiedTokens = verifiedTokens h1, timestamp = t1,
                 CacheEntry.apiStatus = Working, version = cacheVersion g\<rparr> \<and>
         fst (fetchVerifiedTokens chainId now now' response (g1, h')) = g1 \<and>
         verifiedTokens (snd (fetchVerifiedTokens chainId now now' response (g1, h'))) =
           verifiedTokens h1 \<and>
         isReady (snd (fetchVerifiedTokens chainId now now' response (g1, h'))) \<and>
         cached (invalidateVerifiedTokensCache g1) chainId now = None \<and>
         cachedTokens (cacheSet c cacheKey v t1) cacheKey now = (v, True) \<and>
         cachedTokens (invalidateTokenBalanceCache (cacheSet c cacheKey v t1)) cacheKey now =
           ([], False)"
proof -
  let ?e = "\<lparr>CacheEntry.verifiedTokens = verifiedTokens h1, timestamp = t1,
             CacheEntry.apiStatus = Working, version = cacheVersion g\<rparr>"
  from assms(2,3) have g1: "g1 = g\<lparr>VerifiedTokensCache.cache := (VerifiedTokensCache.cache g)(chainId \<mapsto> ?e)\<rparr>"
    by (auto simp: fetchVerifiedTokens_def Let_def)
  with assms(1) have hit: "cached g1 chainId now = Some ?e"
    by (simp add: cached_def)
  have miss: "cached (invalidateVerifiedTokensCache g1) chainId now = None"
    by (simp add: g1 cached_def invalidateVerifiedTokensCache_def)
  have tok: "cachedTokens (cacheSet c cacheKey v t1) cacheKey now = (v, True)"
    using assms(1) by (simp add: cachedTokens_def cacheSet_def)
  have tokmiss: "cachedTokens (invalidateTokenBalanceCache (cacheSet c cacheKey v t1)) cacheKey now =
           ([], False)"
    by (simp add: cachedTokens_def cacheSet_def invalidateTokenBalanceCache_def)
  show ?thesis
    using hit miss tok tokmiss by (simp add: fetchVerifiedTokens_hit [OF hit])
qed

lemma exampleFetched_set:
  "verifiedTokens (snd exampleFetched) = {|''0xaaaaaaaaaaaaaaaaaaaaaaaaaaaaaaaaaaaaaaaa''|}"
  by code_simp

theorem cache_round_trip_and_invalidation_witness:
  "(60000::int) - 1005 < CACHE_TTL \<and>
   cached emptyCache 1 1000 = None \<and>
   verifiedTokens
     (snd (fetchVerifiedTokens 1 60000 60001 (Threw ''Failed to fetch'')
            (fst exampleFetched, initialState))) =
     {|''0xaaaaaaaaaaaaaaaaaaaaaaaaaaaaaaaaaaaaaaaa''|} \<and>
   cached (invalidateVerifiedTokensCache (fst exampleFetched)) 1 60000 = None \<and>
   cachedTokens (cacheSet emptyTokenCache ''0x1111-1'' exampleTokens 1005) ''0x1111-1'' 60000 =
     (exampleTokens, True) \<and>
   cachedTokens (invalidateTokenBalanceCache (cacheSet emptyTokenCache ''0x1111-1'' exampleTokens 1005))
     ''0x1111-1'' 60000 = ([], False)"
proof -
  have a: "(60000::int) - 1005 < CACHE_TTL"
    by (simp add: CACHE_TTL_def)
  have b: "cached emptyCache 1 1000 = None"
    by (simp add: cached_def emptyCache_def)
  have c: "fetchVerifiedTokens 1 1000 1005 (Tokens
             [\<lparr>address = ''0xAAAAaaaaAAAAaaaaAAAAaaaaAAAAaaaaAAAAaaaa'', symbol = ''TKN'',
               decimals = 18, listed = True\<rparr>,
              \<lparr>address = ''0xbad0000000000000000000000000000000000bad'', symbol = ''BAD'',
               decimals = 18, listed = False\<rparr>]) (emptyCache, initialState) =
           (fst exampleFetched, snd exampleFetched)"
    by (simp add: exampleFetched_def exampleBody_def)
  from cache_round_trip_and_invalidation [OF a b c, of 60001 "Threw ''Failed to fetch''" initialState
      emptyTokenCache "''0x1111-1''" exampleTokens]
  show ?thesis
    using a b exampleFetched_set by simp
qed

section \<open>Properties of token discovery\<close>

lemma parseFloat_empty: "parseFloat [] = NaN"
  by (simp add: parseFloat_def)

lemma parseFloat_zero: "parseFloat ''0'' = Finite 0"
  by code_simp

lemma hasBalance_iff:
  "hasBalance asset \<longleftrightarrow> isGreater (parseFloat (balanceValue asset)) (Finite 0)"
proof -
  have "\<not> isGreater (parseFloat []) (Finite 0)" "\<not> isGreater (parseFloat ''0'') (Finite 0)"
    by (simp_all add: parseFloat_empty parseFloat_zero isGreater_def)
  then show ?thesis
    unfolding hasBalance_def by metis
qed

subsection \<open>Reading and printing numbers\<close>

text \<open>A positive integer of \<open>n\<close> binary digits is at least \<open>2^(n - 1)\<close>.\<close>

lemma bitLength_pos: "0 < n \<Longrightarrow> 0 < bitLength n"
  by (subst bitLength.simps) simp

lemma bitLength_lower: "0 < n \<Longrightarrow> 2 ^ (bitLength n - 1) \<le> n"
proof (induction n rule: bitLength.induct)
  case (1 n)
  show ?case
  proof (cases "n div 2 = 0")
    case True
    with 1(2) have "bitLength n = 1"
      by (subst bitLength.simps, subst bitLength.simps) simp
    with 1(2) show ?thesis by simp
  next
    case False
    with 1(2) have pos: "0 < n div 2" by simp
    with 1 have IH: "2 ^ (bitLength (n div 2) - 1) \<le> n div 2" by simp
    from 1(2) have "bitLength n = Suc (bitLength (n div 2))"
      by (subst bitLength.simps) simp
    moreover from pos have "0 < bitLength (n div 2)" by (rule bitLength_pos)
    ultimately have "(2::int) ^ (bitLength n - 1) = 2 * 2 ^ (bitLength (n div 2) - 1)"
      by (cases "bitLength (n div 2)") simp_all
    with IH show ?thesis by simp
  qed
qed

lemma roundHalfEven_ge: "a div b \<le> roundHalfEven a b"
  by (simp add: roundHalfEven_def Let_def)

lemma pow2_pos: "0 < pow2 p"
  by (simp add: pow2_def)

text \<open>The double of an integer has the sign of the integer: no integer rounds to zero.\<close>

lemma numberValue_integer_sign:
  "isGreater (numberValue a 1) (Finite 0) \<longleftrightarrow> 0 < a"
proof (cases "a = 0")
  case True
  then show ?thesis by (simp add: numberValue_def isGreater_def)
next
  case False
  define m where "m = \<bar>a\<bar>"
  define e0 where "e0 = int (bitLength m) - int (bitLength 1)"
  define e where "e = (if (if 0 \<le> e0 then 1 * 2 ^ nat e0 \<le> m else 1 \<le> m * 2 ^ nat (- e0))
                       then e0 else e0 - 1)"
  define p where "p = max e (- 1022) - 52"
  define n where "n = (if 0 \<le> p then roundHalfEven m (1 * 2 ^ nat p)
                       else roundHalfEven (m * 2 ^ nat (- p)) 1)"
  define v where "v = of_int n * pow2 p"
  have nv: "numberValue a 1 =
        (if 2 ^ 1024 \<le> v then (if a < 0 then NegInfinity else Infinity)
         else Finite (if a < 0 then - v else v))"
    unfolding v_def n_def p_def e_def e0_def m_def numberValue_def Let_def
    using False by (simp only: if_False)
  from False have m: "0 < m" by (simp add: m_def)
  have one: "bitLength 1 = 1"
    by (subst bitLength.simps, subst bitLength.simps) simp
  from m have bl: "0 < bitLength m" by (rule bitLength_pos)
  then have e0: "0 \<le> e0" "nat e0 = bitLength m - 1"
    by (simp_all add: e0_def one)
  from m have low: "2 ^ nat e0 \<le> m"
    unfolding e0(2) by (rule bitLength_lower)
  have p: "p = e0 - 52" using e0(1) low by (simp add: p_def e_def)
  have "0 < n"
  proof (cases "0 \<le> p")
    case True
    then have "nat p \<le> nat e0" by (simp add: p)
    then have "(2::int) ^ nat p \<le> 2 ^ nat e0" by (rule power_increasing) simp
    then have "2 ^ nat p \<le> m" using low by (rule order_trans)
    then have "0 < m div 2 ^ nat p"
      by (simp add: pos_imp_zdiv_pos_iff)
    with True roundHalfEven_ge [of m "2 ^ nat p"] show ?thesis
      by (simp add: n_def)
  next
    case False
    from m have "0 < m * 2 ^ nat (- p)" by simp
    with roundHalfEven_ge [of "m * 2 ^ nat (- p)" 1] have "0 < roundHalfEven (m * 2 ^ nat (- p)) 1"
      by simp
    with False show ?thesis
      by (simp add: n_def)
  qed
  then have v: "0 < v" by (simp add: v_def pow2_pos)
  show ?thesis
    using v False by (auto simp: nv isGreater_def)
qed

text \<open>A string of decimal digits is read as the double of the integer it writes.\<close>

lemma isDigit_cases:
  "isDigit c \<Longrightarrow> \<not> isWhiteSpace c \<and> c \<noteq> CHR ''-'' \<and> c \<noteq> CHR ''+'' \<and> c \<noteq> CHR ''I''"
  by (auto simp: isDigit_def isWhiteSpace_def)

lemma parseFloat_digits:
  assumes "list_all isDigit s" and "s \<noteq> []"
  shows "parseFloat s = numberValue (decimalValue s) 1"
proof -
  from assms obtain c cs where s: "s = c # cs" by (cases s) auto
  with assms have c: "isDigit c" by simp
  note d = isDigit_cases [OF c]
  have t: "dropWhile isWhiteSpace s = s" using d by (simp add: s)
  have tw: "takeWhile isDigit s = s" "dropWhile isDigit s = []"
    using assms(1) by (simp_all add: list_all_iff)
  have inf: "take 8 s \<noteq> ''Infinity''" using d by (auto simp: s)
  have hd: "hd s \<noteq> CHR ''-''" "hd s \<noteq> CHR ''+''" using d by (simp_all add: s)
  show ?thesis
    using assms(2) hd inf
    by (simp add: parseFloat_def t tw Let_def exponentPart_def)
qed

lemma parseFloat_integer_sign:
  assumes "list_all isDigit s"
  shows "isGreater (parseFloat s) (Finite 0) \<longleftrightarrow> 0 < decimalValue s"
proof (cases "s = []")
  case True
  then show ?thesis
    by (simp add: parseFloat_empty isGreater_def decimalValue_def)
next
  case False
  with assms show ?thesis
    by (simp add: parseFloat_digits numberValue_integer_sign)
qed

text \<open>
  Reading rounds: a value written just above a cent reads as the threshold itself, and a
  fraction below the smallest double reads as zero.
\<close>

lemma parseFloat_rounds_to_threshold:
  "parseFloat ''0.010000000000000001'' = MIN_TOKEN_VALUE_USD \<and>
   MIN_TOKEN_VALUE_USD = Finite (5764607523034235 / 576460752303423488)"
  by code_simp

lemma parseFloat_underflow: "parseFloat ''1e-400'' = Finite 0"
  by code_simp




subsection \<open>The filter\<close>

text \<open>
  C6. A record of the native asset is kept by the filter if and only if its balance is
  strictly positive and it is not flagged as spam, whatever its USD value, its standard tags
  and the answer of the registry. The balance is the number that \<open>parseFloat\<close> reads from
  the balance string; for a balance written as a decimal integer (base units, as the
  provider reports it) that number is positive exactly when the integer is.
\<close>

theorem native_asset_kept_iff_balance_and_not_spam:
  assumes "isNative asset"
  shows "(keepAsset verify asset \<longleftrightarrow>
            isGreater (parseFloat (balanceValue asset)) (Finite 0) \<and> \<not> Asset.is_spam asset) \<and>
         (asset \<in> set (filteredAssets verify assets) \<longleftrightarrow>
            asset \<in> set assets \<and>
            isGreater (parseFloat (balanceValue asset)) (Finite 0) \<and> \<not> Asset.is_spam asset) \<and>
         keepAsset verify' (asset\<lparr>usd_value := v, Asset.supports_erc := tags\<rparr>) = keepAsset verify asset \<and>
         (list_all isDigit (balanceValue asset) \<longrightarrow>
            (keepAsset verify asset \<longleftrightarrow>
               0 < decimalValue (balanceValue asset) \<and> \<not> Asset.is_spam asset))"
proof -
  have "isNative (asset\<lparr>usd_value := v, Asset.supports_erc := tags\<rparr>)"
    using assms by (auto simp: isNative_def tokenAddress_def)
  moreover have "balanceValue (asset\<lparr>usd_value := v, Asset.supports_erc := tags\<rparr>) = balanceValue asset"
    by (simp add: balanceValue_def)
  ultimately show ?thesis
    using assms
    by (auto simp: keepAsset_def hasBalance_iff isNotSpam_def filteredAssets_def
        parseFloat_integer_sign)
qed

theorem native_asset_kept_iff_balance_and_not_spam_witness:
  "isNative nativeAsset \<and> keepAsset (\<lambda>a. False) nativeAsset \<and>
   list_all isDigit (balanceValue nativeAsset) \<and> decimalValue (balanceValue nativeAsset) = 1000 \<and>
   \<not> keepAsset (\<lambda>a. True) (nativeAsset\<lparr>Asset.balance := ''0''\<rparr>) \<and>
   \<not> keepAsset (\<lambda>a. True) (nativeAsset\<lparr>Asset.is_spam := True\<rparr>)"
proof -
  have n: "isNative nativeAsset" "isNative (nativeAsset\<lparr>Asset.balance := ''0''\<rparr>)"
    "isNative (nativeAsset\<lparr>Asset.is_spam := True\<rparr>)"
    by code_simp+
  have b: "list_all isDigit (balanceValue nativeAsset)"
    "decimalValue (balanceValue nativeAsset) = 1000"
    "0 < decimalValue (balanceValue nativeAsset)"
    "list_all isDigit (balanceValue (nativeAsset\<lparr>Asset.balance := ''0''\<rparr>))"
    "\<not> 0 < decimalValue (balanceValue (nativeAsset\<lparr>Asset.balance := ''0''\<rparr>))"
    "\<not> Asset.is_spam nativeAsset"
    "Asset.is_spam (nativeAsset\<lparr>Asset.is_spam := True\<rparr>)"
    by code_simp+
  have k1: "keepAsset (\<lambda>a. False) nativeAsset"
    using native_asset_kept_iff_balance_and_not_spam [OF n(1), of "\<lambda>a. False"] b by blast
  have k2: "\<not> keepAsset (\<lambda>a. True) (nativeAsset\<lparr>Asset.balance := ''0''\<rparr>)"
    using native_asset_kept_iff_balance_and_not_spam [OF n(2), of "\<lambda>a. True"] b by blast
  have k3: "\<not> keepAsset (\<lambda>a. True) (nativeAsset\<lparr>Asset.is_spam := True\<rparr>)"
    using native_asset_kept_iff_balance_and_not_spam [OF n(3), of "\<lambda>a. True"] b by blast
  from n k1 k2 k3 b show ?thesis by blast
qed







text \<open>
  C9 states that a chain id with no provider chain name fails with an unsupported-chain
  error before any request. \<open>getMoralisChainName\<close> never returns an empty name: an id it
  does not know is answered with \<open>base\<close>, so the guard of \<open>fetchTokens\<close> cannot fire.
  For Sepolia (id 11155111, a chain of the wallet configuration) the balances of Base are
  requested.
\<close>

theorem sepolia_is_requested_as_base:
  "getMoralisChainName (Some 143) 11155111 = ''base'' \<and>
   fetchTokensRequest (Some 143) ''key'' [] exampleSender 11155111 =
     Inr ''https://deep-index.moralis.io/api/v2.2/wallets/0x1111111111111111111111111111111111111111/tokens?chain=base&exclude_spam=true&exclude_unverified_contracts=true&limit=100''"
  by code_simp

lemma getMoralisChainName_not_empty: "getMoralisChainName MONAD chainId \<noteq> []"
  by (simp add: getMoralisChainName_def)

lemma fetchTokensRequest_never_unsupported:
  "fetchTokensRequest MONAD primaryKey fallbackKey walletAddress chainId \<noteq> Inl (UnsupportedChain c)"
  by (simp add: fetchTokensRequest_def Let_def getMoralisChainName_not_empty)

end
